theory Spec2Isabelle
  imports Complex_Main "HOL-Library.Word" "HOL-Library.Log_Nat"
begin

section \<open>The ArUco display window of scripts/aruco\_interface.py\<close>

text \<open>
  The script defines one class, \<open>ArucoWindow\<close>. Its object holds the configuration
  (\<open>tag_size\<close>, \<open>tag_border\<close>, \<open>image_rescale\<close>), the tracked size of the scaled frame
  (\<open>img_height\<close>, \<open>img_width\<close>), a reference to the canvas array (\<open>output_img\<close>) and the
  cursor. The methods mutate the object and the numpy arrays it refers to, and they raise:
  a slice assignment whose value does not broadcast raises \<open>ValueError\<close>, indexing \<open>None\<close>
  raises \<open>TypeError\<close>, \<open>None.copy()\<close> raises \<open>AttributeError\<close>, \<open>int\<close> of an
  overflowed product raises \<open>OverflowError\<close>, and the OpenCV functions raise \<open>cv2.error\<close>.

  The model keeps all of this explicit. Every method takes the state and returns the state
  it leaves behind together with the exception it raised, if any: an exception does not
  undo the assignments made before it. Arrays live in a store, because \<open>updateCursor\<close>
  draws on a copy and the canvas is mutated in place.
\<close>

subsection \<open>Errors\<close>

datatype error = ValueError | TypeError | AttributeError | OverflowError | CvError

subsection \<open>Numbers\<close>

text \<open>
  Python's \<open>int(x)\<close> on a finite number truncates towards zero. The cursor coordinates
  are only converted, never computed with; they are taken as the real values of the
  numbers passed.
\<close>

definition py_int :: "real \<Rightarrow> int" where
  "py_int x = (if 0 \<le> x then \<lfloor>x\<rfloor> else \<lceil>x\<rceil>)"

text \<open>
  The rescale factor is multiplied with the frame's shape, so its arithmetic matters. A
  Python \<open>float\<close> is an IEEE 754 double: the pair \<open>(mant, expo)\<close> stands for the finite
  double \<open>mant * 2^expo\<close>.
\<close>

record pyfloat =
  mant :: int
  expo :: int

definition float_val :: "pyfloat \<Rightarrow> real" where
  "float_val f =
     (if 0 \<le> expo f then of_int (mant f * 2 ^ nat (expo f))
      else of_int (mant f) / 2 ^ nat (- expo f))"

text \<open>\<open>m / 2^k\<close> rounded to the nearest integer, a tie to the even one.\<close>

definition round_half_even :: "int \<Rightarrow> nat \<Rightarrow> int" where
  "round_half_even m k =
     (if 2 ^ k < 2 * (m mod 2 ^ k) \<or> (2 * (m mod 2 ^ k) = 2 ^ k \<and> odd (m div 2 ^ k))
      then m div 2 ^ k + 1 else m div 2 ^ k)"

text \<open>
  The double nearest to \<open>m * 2^e\<close>: 53 bits of precision, no exponent below -1074, ties
  to even. A result of \<open>2^1024\<close> or more is infinite; no finite value stands for it, and
  the only use made of the product here is \<open>int(...)\<close>, which raises \<open>OverflowError\<close> on
  it (as does the conversion of an \<open>int\<close> too large for a double).
\<close>

definition to_double :: "int \<Rightarrow> int \<Rightarrow> error + pyfloat" where
  "to_double m e =
     (let k = nat (max (bitlen \<bar>m\<bar> - 53) (- 1074 - e));
          m' = round_half_even m k
      in if 1024 < bitlen \<bar>m'\<bar> + (e + int k) then Inl OverflowError
         else Inr \<lparr>mant = m', expo = e + int k\<rparr>)"

text \<open>
  A number passed as \<open>image_rescale\<close> is an \<open>int\<close> or a (finite) \<open>float\<close>.
\<close>

datatype py_number = PyInt int | PyFloat pyfloat

definition number_val :: "py_number \<Rightarrow> real" where
  "number_val r = (case r of PyInt k \<Rightarrow> of_int k | PyFloat f \<Rightarrow> float_val f)"

text \<open>
  \<open>n * f\<close> for a shape entry \<open>n\<close> (an \<open>int\<close>) and a \<open>float\<close> \<open>f\<close>: \<open>n\<close> is converted to a
  double and the product of the two doubles is rounded.
\<close>

definition double_product :: "nat \<Rightarrow> pyfloat \<Rightarrow> error + pyfloat" where
  "double_product n f =
     (case to_double (int n) 0 of
        Inl e \<Rightarrow> Inl e
      | Inr a \<Rightarrow> to_double (mant a * mant f) (expo a + expo f))"

text \<open>
  The value of \<open>n * r\<close> for a shape entry \<open>n\<close> and the number \<open>r\<close>: exact with an \<open>int\<close>,
  the double product with a \<open>float\<close>. The product is only passed to \<open>int\<close>, which raises
  \<open>OverflowError\<close> on an infinite one and truncates a finite one.
\<close>

definition py_mul :: "nat \<Rightarrow> py_number \<Rightarrow> error + real" where
  "py_mul n r =
     (case r of
        PyInt k \<Rightarrow> Inr (of_int (int n * k))
      | PyFloat f \<Rightarrow>
          (case double_product n f of
             Inl e \<Rightarrow> Inl e
           | Inr p \<Rightarrow> Inr (float_val p)))"

definition int_of_product :: "nat \<Rightarrow> py_number \<Rightarrow> error + int" where
  "int_of_product n r = (case py_mul n r of Inl e \<Rightarrow> Inl e | Inr x \<Rightarrow> Inr (py_int x))"

subsection \<open>numpy arrays of dtype uint8 with three axes\<close>

text \<open>
  An array has a shape (rows, columns, channels) and a pixel at every index. Only the
  pixels inside the shape are part of the array.
\<close>

record ndarray =
  nrows :: nat
  ncols :: nat
  nchan :: nat
  px :: "nat \<Rightarrow> nat \<Rightarrow> nat \<Rightarrow> 8 word"

text \<open>\<open>np.ones((h, w, c), dtype="uint8")*255\<close>; a negative dimension raises.\<close>

definition np_ones_255 :: "int \<Rightarrow> int \<Rightarrow> nat \<Rightarrow> error + ndarray" where
  "np_ones_255 h w c =
     (if h < 0 \<or> w < 0 then Inl ValueError
      else Inr \<lparr>nrows = nat h, ncols = nat w, nchan = c, px = (\<lambda>i j k. 255)\<rparr>)"

text \<open>
  A slice bound \<open>i\<close> on an axis of length \<open>n\<close>, as \<open>slice.indices\<close> normalises it for
  step 1: a negative bound counts from the end, and the result is clipped to \<open>0..n\<close>.
  Note that \<open>-0\<close> is \<open>0\<close>: a stop of \<open>-b\<close> with \<open>b = 0\<close> is the start of the axis.
\<close>

definition slice_index :: "nat \<Rightarrow> int \<Rightarrow> nat" where
  "slice_index n i = (if i < 0 then nat (i + int n) else min (nat i) n)"

text \<open>The slice \<open>start:stop\<close> selects the indices from the first to below the second component.\<close>

definition slice_indices :: "nat \<Rightarrow> int \<times> int \<Rightarrow> nat \<times> nat" where
  "slice_indices n sl = (slice_index n (fst sl), slice_index n (snd sl))"

definition slice_len :: "nat \<Rightarrow> int \<times> int \<Rightarrow> nat" where
  "slice_len n sl = snd (slice_indices n sl) - fst (slice_indices n sl)"

definition in_slice :: "nat \<Rightarrow> int \<times> int \<Rightarrow> nat \<Rightarrow> bool" where
  "in_slice n sl i = (fst (slice_indices n sl) \<le> i \<and> i < snd (slice_indices n sl))"

text \<open>
  Broadcasting a value into a target: on every axis the value's length is the target's,
  or it is 1 (and the single entry is repeated, also zero times).
\<close>

definition broadcastable :: "nat \<Rightarrow> nat \<Rightarrow> bool" where
  "broadcastable v t = (v = t \<or> v = 1)"

definition bidx :: "nat \<Rightarrow> nat \<Rightarrow> nat" where
  "bidx v i = (if v = 1 then 0 else i)"

text \<open>\<open>a[rs, cs] = v\<close> for two slices and a three-axis value.\<close>

definition setitem :: "ndarray \<Rightarrow> int \<times> int \<Rightarrow> int \<times> int \<Rightarrow> ndarray \<Rightarrow> error + ndarray" where
  "setitem a rs cs v =
     (if broadcastable (nrows v) (slice_len (nrows a) rs) \<and>
         broadcastable (ncols v) (slice_len (ncols a) cs) \<and>
         broadcastable (nchan v) (nchan a)
      then Inr (a\<lparr>px := (\<lambda>r c k.
             if in_slice (nrows a) rs r \<and> in_slice (ncols a) cs c \<and> k < nchan a
             then px v (bidx (nrows v) (r - fst (slice_indices (nrows a) rs)))
                       (bidx (ncols v) (c - fst (slice_indices (ncols a) cs)))
                       (bidx (nchan v) k)
             else px a r c k)\<rparr>)
      else Inl ValueError)"

subsection \<open>The object, the array store and the display\<close>

record window =
  tag_size :: int
  tag_border :: int
  image_rescale :: py_number
  output_img :: "nat option"
  img_height :: int
  img_width :: int
  cursor :: "int \<times> int"

datatype gui_event = NamedWindow | Imshow ndarray

datatype method_call = Call_initFrame | Call_addCornerTags

text \<open>
  \<open>heap\<close> is the store of the mutable arrays (the canvas and the copies drawn on): a
  reference is a position in it and an allocation appends. \<open>display\<close> collects the calls
  of \<open>cv2.namedWindow\<close> and \<open>cv2.imshow\<close>, with the pixels shown, and \<open>entered\<close> the entries
  into \<open>initFrame\<close> and \<open>addCornerTags\<close>, in the order they are made.
\<close>

record state =
  self :: window
  heap :: "ndarray list"
  display :: "gui_event list"
  entered :: "method_call list"

type_synonym outcome = "error option \<times> state"

text \<open>Statement sequencing: an exception skips the rest and keeps the state reached.\<close>

definition and_then :: "outcome \<Rightarrow> (state \<Rightarrow> outcome) \<Rightarrow> outcome" where
  "and_then r f = (case fst r of None \<Rightarrow> f (snd r) | Some e \<Rightarrow> r)"

subsection \<open>External collaborators\<close>

text \<open>
  OpenCV is not part of the repository; its functions are parameters, and each of them
  may raise.
  \<^item> \<open>cv2.resize(frame, dim)\<close> with \<open>dim = (width, height)\<close>: any function to an error or an array.
  \<^item> \<open>cv2.aruco.drawMarker(dict, id, size, img, 1)\<close> fills the \<open>size \<times> size \<times> 1\<close> array
    \<open>img\<close> that \<open>np.zeros\<close> allocated, or raises: the parameter gives, for a marker number
    and a size, an error or the pixel at each row and column; the shape is the allocated one.
  \<^item> \<open>cv2.circle(img, center, radius, color, thickness)\<close> draws on \<open>img\<close> in place, or
    raises: the parameter maps the old pixels to an error or to the new ones.
\<close>

type_synonym resize_fn = "ndarray \<Rightarrow> int \<times> int \<Rightarrow> error + ndarray"
type_synonym bitmap = "nat \<Rightarrow> nat \<Rightarrow> 8 word"
type_synonym marker_fn = "nat \<Rightarrow> nat \<Rightarrow> error + bitmap"
type_synonym circle_fn =
  "ndarray \<Rightarrow> int \<times> int \<Rightarrow> nat \<Rightarrow> nat \<times> nat \<times> nat \<Rightarrow> int \<Rightarrow> error + ndarray"

definition tag_array :: "bitmap \<Rightarrow> nat \<Rightarrow> ndarray" where
  "tag_array pixels n = \<lparr>nrows = n, ncols = n, nchan = 1, px = (\<lambda>r c k. pixels r c)\<rparr>"

subsection \<open>The methods\<close>

text \<open>\<open>__init__\<close>: stores the parameters as given and creates the window. Nothing is checked.\<close>

definition ArucoWindow_init :: "int \<Rightarrow> int \<Rightarrow> py_number \<Rightarrow> outcome" where
  "ArucoWindow_init ts tb rescale =
     (None,
      \<lparr>self = \<lparr>tag_size = ts, tag_border = tb, image_rescale = rescale,
               output_img = None, img_height = 0, img_width = 0, cursor = (0, 0)\<rparr>,
       heap = [],
       display = [NamedWindow],
       entered = []\<rparr>)"

text \<open>\<open>initFrame\<close>: binds \<open>output_img\<close> to a new white array.\<close>

definition initFrame :: "state \<Rightarrow> outcome" where
  "initFrame s =
     (case np_ones_255 (img_height (self s) + 2 * tag_border (self s))
                       (img_width (self s) + 2 * tag_size (self s) + 4 * tag_border (self s)) 3 of
        Inl e \<Rightarrow> (Some e, s\<lparr>entered := entered s @ [Call_initFrame]\<rparr>)
      | Inr a \<Rightarrow> (None, s\<lparr>self := (self s)\<lparr>output_img := Some (length (heap s))\<rparr>,
                           heap := heap s @ [a],
                           entered := entered s @ [Call_initFrame]\<rparr>))"

text \<open>\<open>self.output_img[rs, cs] = v\<close>: in place, on the array the field refers to.\<close>

definition output_img_setitem :: "int \<times> int \<Rightarrow> int \<times> int \<Rightarrow> ndarray \<Rightarrow> state \<Rightarrow> outcome" where
  "output_img_setitem rs cs v s =
     (case output_img (self s) of
        None \<Rightarrow> (Some TypeError, s)
      | Some p \<Rightarrow>
          (case setitem (heap s ! p) rs cs v of
             Inl e \<Rightarrow> (Some e, s)
           | Inr a \<Rightarrow> (None, s\<lparr>heap := (heap s)[p := a]\<rparr>)))"

text \<open>The slices of the four tags and of the frame, as the source writes them.\<close>

definition ul_slices :: "window \<Rightarrow> (int \<times> int) \<times> (int \<times> int)" where
  "ul_slices w = ((tag_border w, tag_size w + tag_border w),
                  (tag_border w, tag_size w + tag_border w))"

definition ur_slices :: "window \<Rightarrow> (int \<times> int) \<times> (int \<times> int)" where
  "ur_slices w = ((tag_border w, tag_size w + tag_border w),
                  (3 * tag_border w + tag_size w + img_width w, - tag_border w))"

definition br_slices :: "window \<Rightarrow> (int \<times> int) \<times> (int \<times> int)" where
  "br_slices w = ((- (tag_size w + tag_border w), - tag_border w),
                  (3 * tag_border w + tag_size w + img_width w, - tag_border w))"

definition bl_slices :: "window \<Rightarrow> (int \<times> int) \<times> (int \<times> int)" where
  "bl_slices w = ((- (tag_size w + tag_border w), - tag_border w),
                  (tag_border w, tag_size w + tag_border w))"

definition frame_slices :: "window \<Rightarrow> (int \<times> int) \<times> (int \<times> int)" where
  "frame_slices w = ((tag_border w, - tag_border w),
                     (2 * tag_border w + tag_size w, - (2 * tag_border w + tag_size w)))"

text \<open>
  \<open>addCornerTags\<close>: \<open>np.zeros((tag_size, tag_size, 1))\<close> raises for a negative size; the
  markers 0, 1, 2, 3 are drawn, each of which may raise, and then assigned in the order
  UL, UR, BR, BL.
\<close>

definition addCornerTags :: "marker_fn \<Rightarrow> state \<Rightarrow> outcome" where
  "addCornerTags marker s =
     (let s0 = s\<lparr>entered := entered s @ [Call_addCornerTags]\<rparr>; w = self s; n = nat (tag_size w) in
      if tag_size w < 0 then (Some ValueError, s0)
      else
        (case marker 0 n of Inl e \<Rightarrow> (Some e, s0) | Inr ul_tag \<Rightarrow>
        (case marker 1 n of Inl e \<Rightarrow> (Some e, s0) | Inr ur_tag \<Rightarrow>
        (case marker 2 n of Inl e \<Rightarrow> (Some e, s0) | Inr br_tag \<Rightarrow>
        (case marker 3 n of Inl e \<Rightarrow> (Some e, s0) | Inr bl_tag \<Rightarrow>
          and_then (and_then (and_then
            (output_img_setitem (fst (ul_slices w)) (snd (ul_slices w)) (tag_array ul_tag n) s0)
            (output_img_setitem (fst (ur_slices w)) (snd (ur_slices w)) (tag_array ur_tag n)))
            (output_img_setitem (fst (br_slices w)) (snd (br_slices w)) (tag_array br_tag n)))
            (output_img_setitem (fst (bl_slices w)) (snd (bl_slices w)) (tag_array bl_tag n)))))))"

text \<open>
  \<open>cv2.imshow("ArucoWindow", a)\<close> for the array at a reference: it raises for \<open>None\<close> and
  for an image without rows or without columns.
\<close>

definition imshow :: "nat option \<Rightarrow> state \<Rightarrow> outcome" where
  "imshow ref s =
     (case ref of
        None \<Rightarrow> (Some CvError, s)
      | Some p \<Rightarrow>
          if nrows (heap s ! p) = 0 \<or> ncols (heap s ! p) = 0 then (Some CvError, s)
          else (None, s\<lparr>display := display s @ [Imshow (heap s ! p)]\<rparr>))"

text \<open>
  The scaled size \<open>(img_width, img_height)\<close> that \<open>updateFrame\<close> computes first, the height
  before the width.
\<close>

definition scaled_dim :: "window \<Rightarrow> ndarray \<Rightarrow> error + int \<times> int" where
  "scaled_dim w frame =
     (case int_of_product (nrows frame) (image_rescale w) of
        Inl e \<Rightarrow> Inl e
      | Inr h \<Rightarrow>
          (case int_of_product (ncols frame) (image_rescale w) of
             Inl e \<Rightarrow> Inl e
           | Inr wd \<Rightarrow> Inr (wd, h)))"

definition size_changed :: "window \<Rightarrow> int \<times> int \<Rightarrow> bool" where
  "size_changed w dsize = (snd dsize \<noteq> img_height w \<or> fst dsize \<noteq> img_width w)"

definition updateFrame :: "resize_fn \<Rightarrow> marker_fn \<Rightarrow> ndarray \<Rightarrow> state \<Rightarrow> outcome" where
  "updateFrame resize marker frame s =
     (case scaled_dim (self s) frame of
        Inl e \<Rightarrow> (Some e, s)
      | Inr dsize \<Rightarrow>
     (case resize frame dsize of
        Inl e \<Rightarrow> (Some e, s)
      | Inr resized \<Rightarrow>
          and_then (and_then
            (if size_changed (self s) dsize
             then and_then
                    (initFrame (s\<lparr>self := (self s)\<lparr>img_height := snd dsize, img_width := fst dsize\<rparr>\<rparr>))
                    (addCornerTags marker)
             else (None, s))
            (\<lambda>s. output_img_setitem (fst (frame_slices (self s))) (snd (frame_slices (self s)))
                    resized s))
            (\<lambda>s. imshow (output_img (self s)) s)))"

text \<open>
  \<open>updateCursor\<close>: the cursor is stored first; \<open>disp\<close> is a new array with the canvas's
  pixels, on which the circle of the cursor and then one circle for each corner is drawn,
  up to the first call of \<open>cv2.circle\<close> that raises. The new array enters the store as
  it is when the drawing ends.
\<close>

fun draw_corners :: "circle_fn \<Rightarrow> (real \<times> real) list \<Rightarrow> ndarray \<Rightarrow> error option \<times> ndarray" where
  "draw_corners circle [] disp = (None, disp)"
| "draw_corners circle (corner # corners) disp =
     (case circle disp (py_int (fst corner), py_int (snd corner)) 4 (255, 255, 0) (- 1) of
        Inl e \<Rightarrow> (Some e, disp)
      | Inr disp' \<Rightarrow> draw_corners circle corners disp')"

definition draw_overlay ::
  "circle_fn \<Rightarrow> int \<times> int \<Rightarrow> (real \<times> real) list \<Rightarrow> ndarray \<Rightarrow> error option \<times> ndarray" where
  "draw_overlay circle center corners disp =
     (case circle disp center 10 (255, 0, 0) (- 1) of
        Inl e \<Rightarrow> (Some e, disp)
      | Inr disp' \<Rightarrow> draw_corners circle corners disp')"

definition updateCursor :: "circle_fn \<Rightarrow> real \<Rightarrow> real \<Rightarrow> (real \<times> real) list \<Rightarrow> state \<Rightarrow> outcome" where
  "updateCursor circle x y corners s =
     (let s1 = s\<lparr>self := (self s)\<lparr>cursor := (py_int x, py_int y)\<rparr>\<rparr> in
      case output_img (self s1) of
        None \<Rightarrow> (Some AttributeError, s1)
      | Some p \<Rightarrow>
          (let drawn = draw_overlay circle (cursor (self s1)) corners (heap s1 ! p);
               s2 = s1\<lparr>heap := heap s1 @ [snd drawn]\<rparr>
           in case fst drawn of
                Some e \<Rightarrow> (Some e, s2)
              | None \<Rightarrow> imshow (Some (length (heap s1))) s2))"

subsection \<open>Runs of calls\<close>

text \<open>
  A caller that goes on after an exception (or after a call that returned) makes the next
  call on the state the last one left. \<open>updateCursors\<close> is any number of \<open>updateCursor\<close>
  calls, each with its own position and point list.
\<close>

fun updateCursors :: "circle_fn \<Rightarrow> (real \<times> real \<times> (real \<times> real) list) list \<Rightarrow> state \<Rightarrow> state" where
  "updateCursors circle [] s = s"
| "updateCursors circle (call # calls) s =
     updateCursors circle calls
       (snd (updateCursor circle (fst call) (fst (snd call)) (snd (snd call)) s))"

text \<open>
  A call reallocated the canvas when it entered \<open>initFrame\<close> and then \<open>addCornerTags\<close>, the
  store has one more array and \<open>output_img\<close> refers to it. \<open>reallocs\<close> feeds frames one
  after the other and records this for each call.
\<close>

definition reallocated :: "state \<Rightarrow> state \<Rightarrow> bool" where
  "reallocated s s' =
     (entered s' = entered s @ [Call_initFrame, Call_addCornerTags] \<and>
      length (heap s') = Suc (length (heap s)) \<and> output_img (self s') = Some (length (heap s)))"

fun reallocs :: "resize_fn \<Rightarrow> marker_fn \<Rightarrow> ndarray list \<Rightarrow> state \<Rightarrow> bool list" where
  "reallocs resize marker [] s = []"
| "reallocs resize marker (frame # frames) s =
     reallocated s (snd (updateFrame resize marker frame s))
       # reallocs resize marker frames (snd (updateFrame resize marker frame s))"

subsection \<open>What the claims speak about\<close>

text \<open>The canvas: the array \<open>output_img\<close> refers to, if any.\<close>

definition canvas_of :: "state \<Rightarrow> ndarray option" where
  "canvas_of s = map_option (\<lambda>p. heap s ! p) (output_img (self s))"

text \<open>Well-formedness of the store: a reference points to an allocated array.\<close>

definition refs_ok :: "state \<Rightarrow> bool" where
  "refs_ok s = (case output_img (self s) of None \<Rightarrow> True | Some p \<Rightarrow> p < length (heap s))"

text \<open>The canvas is allocated and has the shape \<open>initFrame\<close> gives it for the tracked size.\<close>

definition ready :: "state \<Rightarrow> bool" where
  "ready s =
     (case output_img (self s) of
        None \<Rightarrow> False
      | Some p \<Rightarrow>
          p < length (heap s) \<and>
          int (nrows (heap s ! p)) = img_height (self s) + 2 * tag_border (self s) \<and>
          int (ncols (heap s ! p))
            = img_width (self s) + 2 * tag_size (self s) + 4 * tag_border (self s) \<and>
          nchan (heap s ! p) = 3)"

text \<open>
  The pixels a pair of slices selects on the canvas of the tracked size, as a set of
  (row, column) positions.
\<close>

definition canvas_rows :: "window \<Rightarrow> nat" where
  "canvas_rows w = nat (img_height w + 2 * tag_border w)"

definition canvas_cols :: "window \<Rightarrow> nat" where
  "canvas_cols w = nat (img_width w + 2 * tag_size w + 4 * tag_border w)"

definition region :: "window \<Rightarrow> (int \<times> int) \<times> (int \<times> int) \<Rightarrow> (nat \<times> nat) set" where
  "region w sl =
     {(r, c). in_slice (canvas_rows w) (fst sl) r \<and> in_slice (canvas_cols w) (snd sl) c}"

text \<open>
  The bitmaps of the markers, by number and size, and what it means that the marker
  source draws them: \<open>drawMarker\<close> returns for the numbers 0 to 3 at this size.
\<close>

type_synonym bitmaps = "nat \<Rightarrow> nat \<Rightarrow> bitmap"

definition draws :: "marker_fn \<Rightarrow> nat \<Rightarrow> bitmaps \<Rightarrow> bool" where
  "draws marker n bm =
     (marker 0 n = Inr (bm 0 n) \<and> marker 1 n = Inr (bm 1 n) \<and>
      marker 2 n = Inr (bm 2 n) \<and> marker 3 n = Inr (bm 3 n))"

text \<open>
  The four corners hold their markers: marker 0 with its top left pixel at row
  \<open>tag_border\<close>, column \<open>tag_border\<close>; marker 1 to the right of the frame; markers 2 and 3
  below them, ending \<open>tag_border\<close> rows above the bottom.
\<close>

definition corner_tags_ok :: "bitmaps \<Rightarrow> window \<Rightarrow> ndarray \<Rightarrow> bool" where
  "corner_tags_ok bm w a =
     (\<forall>r c k. r < nat (tag_size w) \<and> c < nat (tag_size w) \<and> k < 3 \<longrightarrow>
        px a (nat (tag_border w) + r) (nat (tag_border w) + c) k
          = bm 0 (nat (tag_size w)) r c \<and>
        px a (nat (tag_border w) + r)
             (nat (3 * tag_border w + tag_size w + img_width w) + c) k
          = bm 1 (nat (tag_size w)) r c \<and>
        px a (nat (img_height w + tag_border w - tag_size w) + r)
             (nat (3 * tag_border w + tag_size w + img_width w) + c) k
          = bm 2 (nat (tag_size w)) r c \<and>
        px a (nat (img_height w + tag_border w - tag_size w) + r) (nat (tag_border w) + c) k
          = bm 3 (nat (tag_size w)) r c)"

text \<open>
  The interior holds the resized frame: its pixel (r, c) is at row \<open>tag_border + r\<close> and
  column \<open>2*tag_border + tag_size + c\<close>.
\<close>

definition frame_ok :: "window \<Rightarrow> ndarray \<Rightarrow> ndarray \<Rightarrow> bool" where
  "frame_ok w a resized =
     (\<forall>r c k. r < nrows resized \<and> c < ncols resized \<and> k < 3 \<longrightarrow>
        px a (nat (tag_border w) + r) (nat (2 * tag_border w + tag_size w) + c) k
          = px resized r c k)"


text \<open>
  The overlay is drawn on a copy of the array \<open>a\<close>: every \<open>cv2.circle\<close> call returns, and
  the image they leave has rows and columns, so that \<open>cv2.imshow\<close> accepts it.
\<close>

definition overlay_drawn :: "circle_fn \<Rightarrow> real \<Rightarrow> real \<Rightarrow> (real \<times> real) list \<Rightarrow> ndarray \<Rightarrow> bool" where
  "overlay_drawn circle x y corners a =
     (fst (draw_overlay circle (py_int x, py_int y) corners a) = None \<and>
      0 < nrows (snd (draw_overlay circle (py_int x, py_int y) corners a)) \<and>
      0 < ncols (snd (draw_overlay circle (py_int x, py_int y) corners a)))"

text \<open>The \<open>cv2.imshow\<close> calls made between two states.\<close>

definition shown_since :: "state \<Rightarrow> state \<Rightarrow> gui_event list" where
  "shown_since s s' = drop (length (display s)) (display s')"

subsection \<open>Sample collaborators and inputs\<close>

text \<open>
  Concrete instances of the three OpenCV functions and a frame, for evaluating the methods
  on concrete inputs. Each raises where OpenCV does: the nearest-neighbour resize for an
  empty frame or an empty size, the marker source for a side of less than 6 pixels (a
  4 by 4 marker with its border has 6 cells), the filled disc for a centre that does not
  fit 32 bits. The bitmaps are chequerboards of 6 by 6 cells shifted by the marker's
  number; the frame is a gradient.
\<close>

definition sample_resize :: resize_fn where
  "sample_resize frame dsize =
     (if fst dsize \<le> 0 \<or> snd dsize \<le> 0 \<or> nrows frame = 0 \<or> ncols frame = 0 then Inl CvError
      else Inr \<lparr>nrows = nat (snd dsize), ncols = nat (fst dsize), nchan = nchan frame,
                px = (\<lambda>r c k. px frame (r * nrows frame div nat (snd dsize))
                                        (c * ncols frame div nat (fst dsize)) k)\<rparr>)"

definition sample_bitmaps :: bitmaps where
  "sample_bitmaps ident n r c = (if even (ident + r * 6 div n + c * 6 div n) then 0 else 255)"

definition sample_marker :: marker_fn where
  "sample_marker ident n = (if n < 6 then Inl CvError else Inr (sample_bitmaps ident n))"

definition fits_int32 :: "int \<Rightarrow> bool" where
  "fits_int32 i = (- (2 ^ 31) \<le> i \<and> i < 2 ^ 31)"

definition sample_circle :: circle_fn where
  "sample_circle a center radius colour thickness =
     (if \<not> fits_int32 (fst center) \<or> \<not> fits_int32 (snd center) then Inl CvError
      else Inr (a\<lparr>px := (\<lambda>r c k.
          if (int c - fst center)\<^sup>2 + (int r - snd center)\<^sup>2 \<le> (int radius)\<^sup>2 \<and> k < 3
          then of_nat ([fst colour, fst (snd colour), snd (snd colour)] ! k)
          else px a r c k)\<rparr>))"

definition sample_frame :: "nat \<Rightarrow> nat \<Rightarrow> ndarray" where
  "sample_frame h w = \<lparr>nrows = h, ncols = w, nchan = 3, px = (\<lambda>r c k. of_nat (r + c + k))\<rparr>"


text \<open>A window constructed with the defaults that tracks a 640 by 480 frame.\<close>

definition s640 :: state where
  "s640 = (snd (ArucoWindow_init 100 10 (PyInt 1)))
            \<lparr>self := (self (snd (ArucoWindow_init 100 10 (PyInt 1))))
                      \<lparr>img_height := 480, img_width := 640\<rparr>\<rparr>"

subsection \<open>Auxiliary notions\<close>

text \<open>
  The spec's description of the reallocation trigger, as a state machine over the tracked
  size: a frame size reallocates when it differs from the size tracked so far, and is then
  the tracked size.
\<close>

fun size_changes :: "int \<times> int \<Rightarrow> (int \<times> int) list \<Rightarrow> bool list" where
  "size_changes tracked [] = []"
| "size_changes tracked (d # ds) = (d \<noteq> tracked) # size_changes d ds"

text \<open>
  Two states show the same view when their references are well-formed and they agree on
  the canvas pixels, the configuration and the tracked size. They may differ in the
  cursor, in what has been displayed, and in arrays that no field refers to.
\<close>

definition same_view :: "state \<Rightarrow> state \<Rightarrow> bool" where
  "same_view s t =
     (refs_ok s \<and> refs_ok t \<and> canvas_of s = canvas_of t \<and>
      tag_size (self s) = tag_size (self t) \<and> tag_border (self s) = tag_border (self t) \<and>
      image_rescale (self s) = image_rescale (self t) \<and>
      img_height (self s) = img_height (self t) \<and> img_width (self s) = img_width (self t))"

definition same_outcome :: "outcome \<Rightarrow> outcome \<Rightarrow> bool" where
  "same_outcome r r' = (fst r = fst r' \<and> same_view (snd r) (snd r'))"

text \<open>
  The configuration and tracked size for which every slice of \<open>addCornerTags\<close> and
  \<open>updateFrame\<close> has the length of the array assigned to it: a border of at least one
  pixel (so that \<open>-tag_border\<close> counts from the end), and a canvas high enough for a tag.
\<close>

definition fits :: "window \<Rightarrow> bool" where
  "fits w = (0 < tag_border w \<and> 0 \<le> tag_size w \<and> 0 \<le> img_width w \<and> 0 \<le> img_height w
             \<and> tag_size w \<le> img_height w + tag_border w)"

text \<open>
  The array \<open>a\<close> with the array \<open>v\<close> written at row \<open>r0\<close> and column \<open>c0\<close>: what a slice
  assignment does when the slices have \<open>v\<close>'s lengths.
\<close>

definition paste :: "ndarray \<Rightarrow> nat \<Rightarrow> nat \<Rightarrow> ndarray \<Rightarrow> ndarray" where
  "paste v r0 c0 a =
     a\<lparr>px := (\<lambda>r c k.
          if r0 \<le> r \<and> r < r0 + nrows v \<and> c0 \<le> c \<and> c < c0 + ncols v \<and> k < nchan a
          then px v (r - r0) (c - c0) (bidx (nchan v) k)
          else px a r c k)\<rparr>"

text \<open>
  The canvas that \<open>initFrame\<close> and \<open>addCornerTags\<close> leave when every tag fits: white, with
  the tags written in the order of the source (upper left, upper right, lower right,
  lower left), so that a later tag covers an earlier one where they overlap.
\<close>

definition white_canvas :: "window \<Rightarrow> ndarray" where
  "white_canvas w = \<lparr>nrows = canvas_rows w, ncols = canvas_cols w, nchan = 3, px = (\<lambda>i j k. 255)\<rparr>"

definition tagged_canvas :: "bitmaps \<Rightarrow> window \<Rightarrow> ndarray" where
  "tagged_canvas bm w =
     paste (tag_array (bm 3 (nat (tag_size w))) (nat (tag_size w)))
       (nat (img_height w + tag_border w - tag_size w)) (nat (tag_border w))
     (paste (tag_array (bm 2 (nat (tag_size w))) (nat (tag_size w)))
       (nat (img_height w + tag_border w - tag_size w))
       (nat (3 * tag_border w + tag_size w + img_width w))
     (paste (tag_array (bm 1 (nat (tag_size w))) (nat (tag_size w)))
       (nat (tag_border w)) (nat (3 * tag_border w + tag_size w + img_width w))
     (paste (tag_array (bm 0 (nat (tag_size w))) (nat (tag_size w)))
       (nat (tag_border w)) (nat (tag_border w))
     (white_canvas w))))"

text \<open>The same with the resized frame written into the interior.\<close>

definition with_frame :: "window \<Rightarrow> ndarray \<Rightarrow> ndarray \<Rightarrow> ndarray" where
  "with_frame w resized a =
     paste resized (nat (tag_border w)) (nat (2 * tag_border w + tag_size w)) a"


section \<open>Facts about the steps\<close>

subsection \<open>Sequencing and the primitive steps\<close>

lemma and_then_None [simp]: "and_then (None, s) f = f s"
  by (simp add: and_then_def)

lemma and_then_Some [simp]: "and_then (Some e, s) f = (Some e, s)"
  by (simp add: and_then_def)

lemma and_then_preserves:
  assumes "P (snd r)" and "\<And>s. P s \<Longrightarrow> P (snd (f s))"
  shows "P (snd (and_then r f))"
  using assms by (cases r) (auto simp: and_then_def split: option.splits)

lemma fst_and_then_None:
  "fst (and_then r f) = None \<longleftrightarrow> fst r = None \<and> fst (f (snd r)) = None"
  by (cases r) (auto simp: and_then_def split: option.splits)

lemma snd_and_then: "fst r = None \<Longrightarrow> snd (and_then r f) = snd (f (snd r))"
  by (cases r) (simp add: and_then_def)

text \<open>What the primitive steps leave alone.\<close>

lemma output_img_setitem_self [simp]: "self (snd (output_img_setitem rs cs v s)) = self s"
  by (simp add: output_img_setitem_def split: option.splits sum.splits)

lemma output_img_setitem_length [simp]:
  "length (heap (snd (output_img_setitem rs cs v s))) = length (heap s)"
  by (simp add: output_img_setitem_def split: option.splits sum.splits)

lemma output_img_setitem_display [simp]:
  "display (snd (output_img_setitem rs cs v s)) = display s"
  by (simp add: output_img_setitem_def split: option.splits sum.splits)

lemma output_img_setitem_entered [simp]:
  "entered (snd (output_img_setitem rs cs v s)) = entered s"
  by (simp add: output_img_setitem_def split: option.splits sum.splits)

lemma imshow_self [simp]: "self (snd (imshow ref s)) = self s"
  by (simp add: imshow_def split: option.splits)

lemma imshow_heap [simp]: "heap (snd (imshow ref s)) = heap s"
  by (simp add: imshow_def split: option.splits)

lemma imshow_entered [simp]: "entered (snd (imshow ref s)) = entered s"
  by (simp add: imshow_def split: option.splits)

lemma imshow_fst: "fst (imshow ref s) = None \<Longrightarrow> ref \<noteq> None"
  by (auto simp: imshow_def split: option.splits)

lemma addCornerTags_self [simp]: "self (snd (addCornerTags marker s)) = self s"
  unfolding addCornerTags_def Let_def
  by (auto intro!: and_then_preserves [where P = "\<lambda>t. self t = self s"] split: sum.splits)

lemma addCornerTags_length [simp]:
  "length (heap (snd (addCornerTags marker s))) = length (heap s)"
  unfolding addCornerTags_def Let_def
  by (auto intro!: and_then_preserves [where P = "\<lambda>t. length (heap t) = length (heap s)"]
           split: sum.splits)

lemma addCornerTags_display [simp]:
  "display (snd (addCornerTags marker s)) = display s"
  unfolding addCornerTags_def Let_def
  by (auto intro!: and_then_preserves [where P = "\<lambda>t. display t = display s"] split: sum.splits)

lemma addCornerTags_entered [simp]:
  "entered (snd (addCornerTags marker s)) = entered s @ [Call_addCornerTags]"
  unfolding addCornerTags_def Let_def
  by (auto intro!: and_then_preserves [where P = "\<lambda>t. entered t = entered s @ [Call_addCornerTags]"]
           split: sum.splits)

lemma addCornerTags_negative:
  "tag_size (self s) < 0 \<Longrightarrow> fst (addCornerTags marker s) = Some ValueError"
  by (simp add: addCornerTags_def Let_def)

lemma initFrame_fields [simp]:
  "tag_size (self (snd (initFrame s))) = tag_size (self s)"
  "tag_border (self (snd (initFrame s))) = tag_border (self s)"
  "image_rescale (self (snd (initFrame s))) = image_rescale (self s)"
  "img_height (self (snd (initFrame s))) = img_height (self s)"
  "img_width (self (snd (initFrame s))) = img_width (self s)"
  "cursor (self (snd (initFrame s))) = cursor (self s)"
  "display (snd (initFrame s)) = display s"
  "entered (snd (initFrame s)) = entered s @ [Call_initFrame]"
  by (simp_all add: initFrame_def split: sum.splits)

lemma initFrame_error: "fst (initFrame s) = None \<or> fst (initFrame s) = Some ValueError"
  by (simp add: initFrame_def np_ones_255_def)

lemma initFrame_ok:
  assumes "0 \<le> img_height (self s) + 2 * tag_border (self s)"
    and "0 \<le> img_width (self s) + 2 * tag_size (self s) + 4 * tag_border (self s)"
  shows "initFrame s =
           (None, s\<lparr>self := (self s)\<lparr>output_img := Some (length (heap s))\<rparr>,
                     heap := heap s @ [\<lparr>nrows = nat (img_height (self s) + 2 * tag_border (self s)),
                                        ncols = nat (img_width (self s) + 2 * tag_size (self s)
                                                      + 4 * tag_border (self s)),
                                        nchan = 3, px = (\<lambda>i j k. 255)\<rparr>],
                     entered := entered s @ [Call_initFrame]\<rparr>)"
  using assms by (simp add: initFrame_def np_ones_255_def)

lemma init_fields [simp]:
  "tag_size (self (snd (ArucoWindow_init ts tb r))) = ts"
  "tag_border (self (snd (ArucoWindow_init ts tb r))) = tb"
  "image_rescale (self (snd (ArucoWindow_init ts tb r))) = r"
  "img_height (self (snd (ArucoWindow_init ts tb r))) = 0"
  "img_width (self (snd (ArucoWindow_init ts tb r))) = 0"
  "output_img (self (snd (ArucoWindow_init ts tb r))) = None"
  "heap (snd (ArucoWindow_init ts tb r)) = []"
  "entered (snd (ArucoWindow_init ts tb r)) = []"
  by (simp_all add: ArucoWindow_init_def)

lemma init_refs_ok: "refs_ok (snd (ArucoWindow_init ts tb r))"
  by (simp add: refs_ok_def ArucoWindow_init_def)

subsection \<open>Doubles and the product with the rescale factor\<close>

lemma round_half_even_0 [simp]: "round_half_even m 0 = m"
  by (simp add: round_half_even_def)

lemma round_half_even_nonneg: "0 \<le> m \<Longrightarrow> 0 \<le> round_half_even m k"
  by (simp add: round_half_even_def pos_imp_zdiv_nonneg_iff)

text \<open>Rounding moves a significand by at most half a unit of the last place kept.\<close>

lemma round_half_even_error:
  "\<bar>2 * (round_half_even m k * 2 ^ k - m)\<bar> \<le> 2 ^ k"
proof -
  define q where "q = m div 2 ^ k"
  define r where "r = m mod 2 ^ k"
  have m: "m = q * 2 ^ k + r" unfolding q_def r_def by (rule div_mult_mod_eq [symmetric])
  have r: "0 \<le> r" "r < 2 ^ k" by (simp_all add: r_def)
  show ?thesis
    unfolding round_half_even_def q_def [symmetric] r_def [symmetric]
    using r by (auto simp: m algebra_simps)
qed

lemma to_double_nonneg: "0 \<le> m \<Longrightarrow> to_double m e = Inr a \<Longrightarrow> 0 \<le> mant a"
  by (auto simp: to_double_def Let_def round_half_even_nonneg split: if_splits)

lemma to_double_exact:
  assumes "\<bar>m\<bar> < 2 ^ 53" and "- 1074 \<le> e" and "e \<le> 971"
  shows "to_double m e = Inr \<lparr>mant = m, expo = e\<rparr>"
proof -
  have b: "bitlen \<bar>m\<bar> \<le> 53"
    using assms(1) bitlen_le_iff_power [of "\<bar>m\<bar>" 53] by simp
  then have k: "nat (max (bitlen \<bar>m\<bar> - 53) (- 1074 - e)) = 0"
    using assms(2) by simp
  show ?thesis
    unfolding to_double_def Let_def k using b assms(3) by simp
qed


lemma float_val_nonneg: "0 \<le> mant f \<Longrightarrow> 0 \<le> float_val f"
  by (simp add: float_val_def)


lemma float_val_nonneg_iff: "0 \<le> float_val f \<longleftrightarrow> 0 \<le> mant f"
  by (auto simp: float_val_def zero_le_mult_iff zero_le_divide_iff power_le_zero_eq)

lemma float_val_scale:
  "float_val \<lparr>mant = int n * m, expo = e\<rparr> = real n * float_val \<lparr>mant = m, expo = e\<rparr>"
  by (simp add: float_val_def)


lemma py_int_nonneg_le: "0 \<le> x \<Longrightarrow> 0 \<le> py_int x"
  by (simp add: py_int_def)

lemma py_int_of_int [simp]: "py_int (of_int z) = z"
  by (simp add: py_int_def)

lemma py_int_of_nat [simp]: "py_int (real n) = int n"
  by (simp add: py_int_def)

lemma double_product_nonneg:
  assumes "0 \<le> mant f" and "double_product n f = Inr p"
  shows "0 \<le> mant p"
proof -
  from assms(2) obtain a where a: "to_double (int n) 0 = Inr a"
    and p: "to_double (mant a * mant f) (expo a + expo f) = Inr p"
    by (auto simp: double_product_def split: sum.splits)
  from to_double_nonneg [OF _ a] have "0 \<le> mant a" by simp
  with assms(1) have "0 \<le> mant a * mant f" by simp
  from to_double_nonneg [OF this p] show ?thesis .
qed


lemma py_mul_nonneg:
  assumes "0 \<le> number_val r" and "py_mul n r = Inr x"
  shows "0 \<le> x"
proof (cases r)
  case (PyInt k)
  with assms show ?thesis by (auto simp: py_mul_def number_val_def)
next
  case (PyFloat f)
  with assms(2) obtain p where p: "double_product n f = Inr p" and x: "x = float_val p"
    by (auto simp: py_mul_def split: sum.splits)
  from assms(1) PyFloat have "0 \<le> mant f" by (simp add: number_val_def float_val_nonneg_iff)
  from double_product_nonneg [OF this p] show ?thesis
    by (simp add: x float_val_nonneg)
qed




lemma int_of_product_nonneg:
  assumes "0 \<le> number_val r" and "int_of_product n r = Inr v"
  shows "0 \<le> v"
proof -
  from assms(2) obtain x where x: "py_mul n r = Inr x" and v: "v = py_int x"
    by (auto simp: int_of_product_def split: sum.splits)
  from py_mul_nonneg [OF assms(1) x] show ?thesis by (simp add: v py_int_nonneg_le)
qed

text \<open>The double nearest to one third, times 3, is 1; the exact product is below 1.\<close>

lemma product_with_third:
  "int_of_product 3 (PyFloat \<lparr>mant = 6004799503160661, expo = - 54\<rparr>) = Inr 1
   \<and> \<lfloor>real 3 * float_val \<lparr>mant = 6004799503160661, expo = - 54\<rparr>\<rfloor> = 0"
proof -
  have a: "to_double (int 3) 0 = Inr \<lparr>mant = 3, expo = 0\<rparr>"
    using to_double_exact [of 3 0] by simp
  have "bitlen (18014398509481983 :: int) \<le> 54" and "54 \<le> bitlen (18014398509481983 :: int)"
    by (simp_all add: bitlen_le_iff_power bitlen_ge_iff_power)
  then have b: "bitlen \<bar>18014398509481983 :: int\<bar> = 54" by simp
  have c: "bitlen (9007199254740992 :: int) \<le> 54"
    by (simp add: bitlen_le_iff_power)
  have "to_double 18014398509481983 (- 54) = Inr \<lparr>mant = 9007199254740992, expo = - 53\<rparr>"
    unfolding to_double_def Let_def b
    using c by (simp add: round_half_even_def)
  with a show ?thesis
    by (simp add: int_of_product_def py_mul_def double_product_def float_val_def py_int_def)
qed

lemma scaled_dim_cong:
  "image_rescale w = image_rescale w' \<Longrightarrow> scaled_dim w frame = scaled_dim w' frame"
  by (simp add: scaled_dim_def split: sum.splits)

lemma scaled_dim_nonneg:
  assumes "0 \<le> number_val (image_rescale w)" and "scaled_dim w frame = Inr d"
  shows "0 \<le> fst d \<and> 0 \<le> snd d"
proof -
  from assms(2) obtain h wd where h: "int_of_product (nrows frame) (image_rescale w) = Inr h"
    and wd: "int_of_product (ncols frame) (image_rescale w) = Inr wd" and d: "d = (wd, h)"
    by (auto simp: scaled_dim_def split: sum.splits)
  from int_of_product_nonneg [OF assms(1) h] int_of_product_nonneg [OF assms(1) wd] d
  show ?thesis by simp
qed

lemma scaled_dim_unit [simp]:
  "image_rescale w = PyInt 1 \<Longrightarrow> scaled_dim w frame = Inr (int (ncols frame), int (nrows frame))"
  by (simp add: scaled_dim_def int_of_product_def py_mul_def)

subsection \<open>The steps of updateCursor\<close>

text \<open>\<open>updateCursor\<close> step by step.\<close>

lemma updateCursor_self:
  "self (snd (updateCursor circle x y corners s)) = (self s)\<lparr>cursor := (py_int x, py_int y)\<rparr>"
  by (simp add: updateCursor_def Let_def split: option.splits)

lemma updateCursor_heap:
  "q < length (heap s) \<Longrightarrow> heap (snd (updateCursor circle x y corners s)) ! q = heap s ! q"
  by (simp add: updateCursor_def Let_def nth_append split: option.splits)

lemma updateCursor_length:
  "length (heap s) \<le> length (heap (snd (updateCursor circle x y corners s)))"
  by (simp add: updateCursor_def Let_def split: option.splits)

lemma updateCursor_entered [simp]:
  "entered (snd (updateCursor circle x y corners s)) = entered s"
  by (simp add: updateCursor_def Let_def split: option.splits)

lemma updateCursor_canvas_of:
  "refs_ok s \<Longrightarrow> canvas_of (snd (updateCursor circle x y corners s)) = canvas_of s"
  by (cases "output_img (self s)")
     (simp_all add: canvas_of_def refs_ok_def updateCursor_self updateCursor_heap)

lemma updateCursor_refs_ok:
  "refs_ok s \<Longrightarrow> refs_ok (snd (updateCursor circle x y corners s))"
  using updateCursor_length [of s circle x y corners]
  by (cases "output_img (self s)") (simp_all add: refs_ok_def updateCursor_self)

lemma updateCursor_unallocated:
  "output_img (self s) = None \<Longrightarrow> fst (updateCursor circle x y corners s) = Some AttributeError"
  by (simp add: updateCursor_def Let_def)

lemma updateCursor_returns_allocated:
  "fst (updateCursor circle x y corners s) = None \<Longrightarrow> output_img (self s) \<noteq> None"
  by (cases "output_img (self s)") (simp_all add: updateCursor_def Let_def)

text \<open>\<open>updateCursor\<close> returns exactly when it finds a canvas on which the overlay is drawn.\<close>

lemma updateCursor_returns_iff:
  "fst (updateCursor circle x y corners s) = None
     \<longleftrightarrow> (case canvas_of s of None \<Rightarrow> False | Some a \<Rightarrow> overlay_drawn circle x y corners a)"
  by (cases "output_img (self s)")
     (auto simp: updateCursor_def Let_def canvas_of_def overlay_drawn_def imshow_def
           split: option.splits)

lemma updateCursors_output_img:
  "output_img (self (updateCursors circle cs s)) = output_img (self s)"
  by (induction cs arbitrary: s) (simp_all add: updateCursor_self)

subsection \<open>The steps of updateFrame\<close>

text \<open>\<open>updateFrame\<close> step by step.\<close>

lemma updateFrame_dim_error:
  "scaled_dim (self s) frame = Inl e \<Longrightarrow> updateFrame resize marker frame s = (Some e, s)"
  by (simp add: updateFrame_def)

lemma updateFrame_resize_error:
  "scaled_dim (self s) frame = Inr d \<Longrightarrow> resize frame d = Inl e \<Longrightarrow>
   updateFrame resize marker frame s = (Some e, s)"
  by (simp add: updateFrame_def)

lemma updateFrame_Inr:
  "scaled_dim (self s) frame = Inr d \<Longrightarrow> resize frame d = Inr resized \<Longrightarrow>
   updateFrame resize marker frame s =
     and_then (and_then
       (if size_changed (self s) d
        then and_then
               (initFrame (s\<lparr>self := (self s)\<lparr>img_height := snd d, img_width := fst d\<rparr>\<rparr>))
               (addCornerTags marker)
        else (None, s))
       (\<lambda>s. output_img_setitem (fst (frame_slices (self s))) (snd (frame_slices (self s)))
               resized s))
       (\<lambda>s. imshow (output_img (self s)) s)"
  unfolding updateFrame_def Let_def by simp

lemma updateFrame_fields:
  assumes "scaled_dim (self s) frame = Inr d" and "resize frame d = Inr resized"
  shows "img_height (self (snd (updateFrame resize marker frame s))) = snd d
       \<and> img_width (self (snd (updateFrame resize marker frame s))) = fst d
       \<and> tag_size (self (snd (updateFrame resize marker frame s))) = tag_size (self s)
       \<and> tag_border (self (snd (updateFrame resize marker frame s))) = tag_border (self s)
       \<and> image_rescale (self (snd (updateFrame resize marker frame s))) = image_rescale (self s)
       \<and> cursor (self (snd (updateFrame resize marker frame s))) = cursor (self s)"
proof -
  let ?P = "\<lambda>t. img_height (self t) = snd d
       \<and> img_width (self t) = fst d
       \<and> tag_size (self t) = tag_size (self s)
       \<and> tag_border (self t) = tag_border (self s)
       \<and> image_rescale (self t) = image_rescale (self s)
       \<and> cursor (self t) = cursor (self s)"
  let ?s1 = "s\<lparr>self := (self s)\<lparr>img_height := snd d, img_width := fst d\<rparr>\<rparr>"
  have "?P (snd (and_then (initFrame ?s1) (addCornerTags marker)))"
    by (rule and_then_preserves) simp_all
  then have 1: "?P (snd (if size_changed (self s) d
                   then and_then (initFrame ?s1) (addCornerTags marker) else (None, s)))"
    by (simp add: size_changed_def)
  have "?P (snd (updateFrame resize marker frame s))"
    unfolding updateFrame_Inr [where resize = resize and frame = frame and s = s, OF assms]
    apply (rule and_then_preserves [where P = ?P])
     apply (rule and_then_preserves [where P = ?P])
      apply (rule 1)
     apply simp
    apply simp
    done
  then show ?thesis .
qed

lemma updateFrame_config:
  "tag_size (self (snd (updateFrame resize marker frame s))) = tag_size (self s)
   \<and> tag_border (self (snd (updateFrame resize marker frame s))) = tag_border (self s)
   \<and> image_rescale (self (snd (updateFrame resize marker frame s))) = image_rescale (self s)
   \<and> cursor (self (snd (updateFrame resize marker frame s))) = cursor (self s)"
proof (cases "scaled_dim (self s) frame")
  case (Inl e)
  then show ?thesis by (simp add: updateFrame_def)
next
  case d: (Inr d)
  show ?thesis
  proof (cases "resize frame d")
    case (Inl e)
    with d show ?thesis by (simp add: updateFrame_def)
  next
    case (Inr resized)
    from updateFrame_fields [where resize = resize and frame = frame and s = s
        and marker = marker, OF d this]
    show ?thesis by simp
  qed
qed

lemma updateFrame_returns_canvas:
  assumes "fst (updateFrame resize marker frame s) = None"
  shows "output_img (self (snd (updateFrame resize marker frame s))) \<noteq> None"
proof (cases "scaled_dim (self s) frame")
  case (Inl e)
  with assms show ?thesis by (simp add: updateFrame_def)
next
  case d: (Inr d)
  show ?thesis
  proof (cases "resize frame d")
    case (Inl e)
    with assms d show ?thesis by (simp add: updateFrame_def)
  next
    case (Inr resized)
    note eq = updateFrame_Inr [where resize = resize and frame = frame and s = s
        and marker = marker, OF d Inr]
    from assms show ?thesis
      unfolding eq by (auto simp: fst_and_then_None snd_and_then dest: imshow_fst)
  qed
qed

subsection \<open>Allocation in updateFrame\<close>

lemma updateFrame_length_unchanged:
  assumes "scaled_dim (self s) frame = Inr d" and "resize frame d = Inr resized"
    and "\<not> size_changed (self s) d"
  shows "length (heap (snd (updateFrame resize marker frame s))) = length (heap s)
         \<and> output_img (self (snd (updateFrame resize marker frame s))) = output_img (self s)
         \<and> entered (snd (updateFrame resize marker frame s)) = entered s"
  unfolding updateFrame_Inr [where resize = resize and frame = frame and s = s, OF assms(1,2)]
  using assms(3)
  by (auto intro!: and_then_preserves
        [where P = "\<lambda>t. length (heap t) = length (heap s) \<and> output_img (self t) = output_img (self s)
                        \<and> entered t = entered s"])

lemma updateFrame_length_changed:
  assumes "scaled_dim (self s) frame = Inr d" and "resize frame d = Inr resized"
    and "size_changed (self s) d"
    and "0 \<le> snd d + 2 * tag_border (self s)"
    and "0 \<le> fst d + 2 * tag_size (self s) + 4 * tag_border (self s)"
  shows "reallocated s (snd (updateFrame resize marker frame s))"
  unfolding updateFrame_Inr [where resize = resize and frame = frame and s = s, OF assms(1,2)]
    reallocated_def
  using assms(3-)
  by (auto simp: initFrame_ok intro!: and_then_preserves
        [where P = "\<lambda>t. entered t = entered s @ [Call_initFrame, Call_addCornerTags]
                        \<and> length (heap t) = Suc (length (heap s))
                        \<and> output_img (self t) = Some (length (heap s))"])

lemma updateFrame_reallocated_iff:
  assumes "scaled_dim (self s) frame = Inr d" and "resize frame d = Inr resized"
    and "0 \<le> snd d + 2 * tag_border (self s)"
    and "0 \<le> fst d + 2 * tag_size (self s) + 4 * tag_border (self s)"
  shows "reallocated s (snd (updateFrame resize marker frame s)) \<longleftrightarrow> size_changed (self s) d"
proof (cases "size_changed (self s) d")
  case True
  from updateFrame_length_changed
         [where resize = resize and frame = frame and s = s and marker = marker,
          OF assms(1,2) True assms(3,4)]
  show ?thesis using True by simp
next
  case False
  from updateFrame_length_unchanged
         [where resize = resize and frame = frame and s = s and marker = marker,
          OF assms(1,2) False]
  show ?thesis using False by (simp add: reallocated_def)
qed

lemma size_changed_iff: "size_changed w d \<longleftrightarrow> d \<noteq> (img_width w, img_height w)"
  by (cases d) (auto simp: size_changed_def)

lemma reallocs_eq_size_changes:
  assumes "list_all2 (\<lambda>f d. scaled_dim w f = Inr d \<and> \<not> isl (resize f d)) frames ds"
    and "image_rescale (self s) = image_rescale w"
    and "0 \<le> tag_size (self s)" and "0 \<le> tag_border (self s)"
    and "0 \<le> number_val (image_rescale w)"
  shows "reallocs resize marker frames s = size_changes (img_width (self s), img_height (self s)) ds"
  using assms
proof (induction frames ds arbitrary: s rule: list_all2_induct)
  case Nil
  then show ?case by simp
next
  case (Cons f fs d ds)
  let ?s' = "snd (updateFrame resize marker f s)"
  from Cons.hyps(1) Cons.prems(1) have d: "scaled_dim (self s) f = Inr d"
    using scaled_dim_cong [of "self s" w f] by simp
  from Cons.hyps(1) obtain resized where ok: "resize f d = Inr resized"
    by (cases "resize f d") auto
  from Cons.prems(1,4) have "0 \<le> number_val (image_rescale (self s))" by simp
  note nn = scaled_dim_nonneg [OF this d]
  have fields: "img_height (self ?s') = snd d"
    "img_width (self ?s') = fst d"
    "tag_size (self ?s') = tag_size (self s)"
    "tag_border (self ?s') = tag_border (self s)"
    "image_rescale (self ?s') = image_rescale (self s)"
    using updateFrame_fields [where resize = resize and frame = f and s = s and marker = marker,
            OF d ok]
    by simp_all
  have head: "reallocated s ?s' \<longleftrightarrow> d \<noteq> (img_width (self s), img_height (self s))"
    using updateFrame_reallocated_iff
            [where resize = resize and frame = f and s = s and marker = marker, OF d ok]
          nn Cons.prems(2,3)
    by (simp add: size_changed_iff)
  have tail: "reallocs resize marker fs ?s'
           = size_changes (img_width (self ?s'), img_height (self ?s')) ds"
    using Cons.prems by (intro Cons.IH) (simp_all add: fields)
  show ?case using head tail by (simp add: fields)
qed

lemma reallocs_error:
  assumes "scaled_dim (self s) f = Inr d" and "resize f d = Inl e"
  shows "reallocs resize marker (f # fs) s = False # reallocs resize marker fs s"
  using updateFrame_resize_error [where resize = resize and frame = f and s = s
      and marker = marker, OF assms]
  by (simp add: reallocated_def)

lemma reallocs_step:
  assumes "scaled_dim (self s) f = Inr d" and "resize f d = Inr resized"
    and "0 \<le> snd d + 2 * tag_border (self s)"
    and "0 \<le> fst d + 2 * tag_size (self s) + 4 * tag_border (self s)"
  shows "reallocs resize marker (f # fs) s
           = size_changed (self s) d # reallocs resize marker fs (snd (updateFrame resize marker f s))"
  using updateFrame_reallocated_iff [where resize = resize and frame = f and s = s
      and marker = marker, OF assms]
  by simp

subsection \<open>States with the same view\<close>

lemma same_outcome_and_then:
  assumes "same_outcome r r'" and "\<And>s t. same_view s t \<Longrightarrow> same_outcome (f s) (g t)"
  shows "same_outcome (and_then r f) (and_then r' g)"
  using assms by (cases r; cases r') (auto simp: same_outcome_def and_then_def split: option.splits)

lemma same_view_initFrame: "same_view s t \<Longrightarrow> same_outcome (initFrame s) (initFrame t)"
  by (simp add: same_view_def same_outcome_def initFrame_def np_ones_255_def refs_ok_def canvas_of_def
        split: option.splits)

lemma same_view_setitem:
  "same_view s t \<Longrightarrow> same_outcome (output_img_setitem rs cs v s) (output_img_setitem rs cs v t)"
  by (auto simp: same_view_def same_outcome_def output_img_setitem_def refs_ok_def canvas_of_def
           split: option.splits sum.splits)

lemma same_view_imshow:
  "same_view s t \<Longrightarrow> same_outcome (imshow (output_img (self s)) s) (imshow (output_img (self t)) t)"
  by (auto simp: same_view_def same_outcome_def imshow_def refs_ok_def canvas_of_def
           split: option.splits)

lemma same_view_entered:
  "same_view s t \<Longrightarrow> same_view (s\<lparr>entered := c\<rparr>) (t\<lparr>entered := c'\<rparr>)"
  by (simp add: same_view_def refs_ok_def canvas_of_def split: option.splits)

lemma same_view_addCornerTags:
  assumes "same_view s t"
  shows "same_outcome (addCornerTags marker s) (addCornerTags marker t)"
proof -
  have eq: "ul_slices (self s) = ul_slices (self t)" "ur_slices (self s) = ur_slices (self t)"
    "br_slices (self s) = br_slices (self t)" "bl_slices (self s) = bl_slices (self t)"
    "tag_size (self s) = tag_size (self t)"
    using assms by (simp_all add: same_view_def ul_slices_def ur_slices_def br_slices_def bl_slices_def)
  note v = same_view_entered [OF assms, of "entered s @ [Call_addCornerTags]" "entered t @ [Call_addCornerTags]"]
  have err: "same_outcome (Some e, s\<lparr>entered := entered s @ [Call_addCornerTags]\<rparr>)
                          (Some e, t\<lparr>entered := entered t @ [Call_addCornerTags]\<rparr>)" for e
    using v by (simp add: same_outcome_def)
  show ?thesis
    unfolding addCornerTags_def Let_def eq
    by (simp add: err same_outcome_and_then same_view_setitem v split: sum.splits)
qed

lemma same_view_frame_slices: "same_view s t \<Longrightarrow> frame_slices (self s) = frame_slices (self t)"
  by (simp add: same_view_def frame_slices_def)

lemma same_view_updateFrame:
  assumes "same_view s t"
  shows "same_outcome (updateFrame resize marker frame s) (updateFrame resize marker frame t)"
proof -
  have d: "scaled_dim (self s) frame = scaled_dim (self t) frame"
    using assms by (intro scaled_dim_cong) (simp add: same_view_def)
  have c: "size_changed (self s) d = size_changed (self t) d" for d
    using assms by (simp add: same_view_def size_changed_def)
  show ?thesis
  proof (cases "scaled_dim (self t) frame")
    case (Inl e)
    then show ?thesis using assms by (simp add: updateFrame_def d same_outcome_def)
  next
    case dim: (Inr dsize)
    show ?thesis
    proof (cases "resize frame dsize")
      case (Inl e)
      then show ?thesis using assms dim by (simp add: updateFrame_def d same_outcome_def)
    next
      case (Inr resized)
      have tr: "same_view (s\<lparr>self := (self s)\<lparr>img_height := snd dsize, img_width := fst dsize\<rparr>\<rparr>)
                          (t\<lparr>self := (self t)\<lparr>img_height := snd dsize, img_width := fst dsize\<rparr>\<rparr>)"
        using assms by (simp add: same_view_def refs_ok_def canvas_of_def split: option.splits)
      have 1: "same_outcome
         (if size_changed (self s) dsize
          then and_then (initFrame (s\<lparr>self := (self s)\<lparr>img_height := snd dsize, img_width := fst dsize\<rparr>\<rparr>))
                 (addCornerTags marker)
          else (None, s))
         (if size_changed (self t) dsize
          then and_then (initFrame (t\<lparr>self := (self t)\<lparr>img_height := snd dsize, img_width := fst dsize\<rparr>\<rparr>))
                 (addCornerTags marker)
          else (None, t))"
        using assms
        by (simp add: c same_outcome_and_then same_view_initFrame [OF tr] same_view_addCornerTags)
           (simp add: same_outcome_def)
      from dim d have dim': "scaled_dim (self s) frame = Inr dsize" by simp
      show ?thesis
        unfolding updateFrame_Inr [where resize = resize and frame = frame and s = t, OF dim Inr]
          updateFrame_Inr [where resize = resize and frame = frame and s = s, OF dim' Inr]
        by (intro same_outcome_and_then 1)
           (simp_all add: same_view_setitem same_view_frame_slices same_view_imshow)
    qed
  qed
qed

lemma same_view_updateCursors:
  "refs_ok s \<Longrightarrow> same_view (updateCursors circle cs s) s"
proof (induction cs arbitrary: s)
  case Nil
  then show ?case by (simp add: same_view_def)
next
  case (Cons call cs)
  let ?s' = "snd (updateCursor circle (fst call) (fst (snd call)) (snd (snd call)) s)"
  have "refs_ok ?s'" using Cons.prems by (rule updateCursor_refs_ok)
  from Cons.IH [OF this] have "same_view (updateCursors circle cs ?s') ?s'" .
  moreover have "same_view ?s' s"
    using Cons.prems \<open>refs_ok ?s'\<close>
    by (simp add: same_view_def updateCursor_self updateCursor_canvas_of)
  ultimately show ?case by (simp add: same_view_def)
qed

lemma imshow_shown:
  "shown_since s0 (snd (imshow (output_img (self t)) t))
     = shown_since s0 t @ (case fst (imshow (output_img (self t)) t) of
          None \<Rightarrow> (case canvas_of (snd (imshow (output_img (self t)) t)) of
                     Some a \<Rightarrow> [Imshow a] | None \<Rightarrow> [])
        | Some e \<Rightarrow> [])"
  if "length (display s0) \<le> length (display t)"
  using that by (simp add: imshow_def shown_since_def canvas_of_def split: option.splits)

lemma updateFrame_shown:
  "shown_since s (snd (updateFrame resize marker frame s))
     = (case fst (updateFrame resize marker frame s) of
          None \<Rightarrow> (case canvas_of (snd (updateFrame resize marker frame s)) of
                     Some a \<Rightarrow> [Imshow a] | None \<Rightarrow> [])
        | Some e \<Rightarrow> [])"
proof (cases "scaled_dim (self s) frame")
  case (Inl e)
  then show ?thesis by (simp add: updateFrame_def shown_since_def)
next
  case dim: (Inr dsize)
  show ?thesis
  proof (cases "resize frame dsize")
    case (Inl e)
    then show ?thesis using dim by (simp add: updateFrame_def shown_since_def)
  next
    case (Inr resized)
    define X where "X = and_then
         (if size_changed (self s) dsize
          then and_then
                 (initFrame (s\<lparr>self := (self s)\<lparr>img_height := snd dsize, img_width := fst dsize\<rparr>\<rparr>))
                 (addCornerTags marker)
          else (None, s))
         (\<lambda>s. output_img_setitem (fst (frame_slices (self s))) (snd (frame_slices (self s)))
                 resized s)"
    have eq: "updateFrame resize marker frame s = and_then X (\<lambda>s. imshow (output_img (self s)) s)"
      unfolding X_def
      by (rule updateFrame_Inr [where resize = resize and frame = frame and s = s, OF dim Inr])
    have d: "display (snd X) = display s"
      unfolding X_def
      by (auto intro!: and_then_preserves [where P = "\<lambda>t. display t = display s"])
    show ?thesis
    proof (cases "fst X")
      case None
      then have e: "and_then X (\<lambda>s. imshow (output_img (self s)) s) = imshow (output_img (self (snd X))) (snd X)"
        by (simp add: and_then_def)
      show ?thesis
        unfolding eq e using imshow_shown [of s "snd X"] d
        by (simp add: shown_since_def)
    next
      case (Some e)
      then show ?thesis
        unfolding eq using d by (simp add: and_then_def shown_since_def)
    qed
  qed
qed

subsection \<open>Slices and regions\<close>

lemmas slice_defs = in_slice_def slice_indices_def slice_index_def slice_len_def
  ul_slices_def ur_slices_def br_slices_def bl_slices_def frame_slices_def

lemma region_disjointI:
  assumes "\<And>r c. in_slice (canvas_rows w) (fst a) r \<Longrightarrow> in_slice (canvas_cols w) (snd a) c \<Longrightarrow>
                 in_slice (canvas_rows w) (fst b) r \<Longrightarrow> in_slice (canvas_cols w) (snd b) c \<Longrightarrow> False"
  shows "region w a \<inter> region w b = {}"
  using assms by (auto simp: region_def)

subsection \<open>The layout when every tag fits\<close>

lemma layout_rows:
  assumes "fits w"
  shows "slice_indices (canvas_rows w) (fst (ul_slices w))
           = (nat (tag_border w), nat (tag_border w) + nat (tag_size w))"
    and "slice_indices (canvas_rows w) (fst (ur_slices w))
           = (nat (tag_border w), nat (tag_border w) + nat (tag_size w))"
    and "slice_indices (canvas_rows w) (fst (br_slices w))
           = (nat (img_height w + tag_border w - tag_size w),
              nat (img_height w + tag_border w - tag_size w) + nat (tag_size w))"
    and "slice_indices (canvas_rows w) (fst (bl_slices w))
           = (nat (img_height w + tag_border w - tag_size w),
              nat (img_height w + tag_border w - tag_size w) + nat (tag_size w))"
    and "slice_indices (canvas_rows w) (fst (frame_slices w))
           = (nat (tag_border w), nat (tag_border w) + nat (img_height w))"
  using assms
  by (auto simp: fits_def slice_indices_def slice_index_def canvas_rows_def
        ul_slices_def ur_slices_def br_slices_def bl_slices_def frame_slices_def)

lemma layout_cols:
  assumes "fits w"
  shows "slice_indices (canvas_cols w) (snd (ul_slices w))
           = (nat (tag_border w), nat (tag_border w) + nat (tag_size w))"
    and "slice_indices (canvas_cols w) (snd (bl_slices w))
           = (nat (tag_border w), nat (tag_border w) + nat (tag_size w))"
    and "slice_indices (canvas_cols w) (snd (ur_slices w))
           = (nat (3 * tag_border w + tag_size w + img_width w),
              nat (3 * tag_border w + tag_size w + img_width w) + nat (tag_size w))"
    and "slice_indices (canvas_cols w) (snd (br_slices w))
           = (nat (3 * tag_border w + tag_size w + img_width w),
              nat (3 * tag_border w + tag_size w + img_width w) + nat (tag_size w))"
    and "slice_indices (canvas_cols w) (snd (frame_slices w))
           = (nat (2 * tag_border w + tag_size w),
              nat (2 * tag_border w + tag_size w) + nat (img_width w))"
  using assms
  by (auto simp: fits_def slice_indices_def slice_index_def canvas_cols_def
        ul_slices_def ur_slices_def br_slices_def bl_slices_def frame_slices_def)

lemma paste_shape [simp]:
  "nrows (paste v rlo clo a) = nrows a" "ncols (paste v rlo clo a) = ncols a"
  "nchan (paste v rlo clo a) = nchan a"
  by (simp_all add: paste_def)

lemma setitem_paste:
  assumes "slice_indices (nrows a) rs = (rlo, rhi)" and "slice_indices (ncols a) cs = (clo, chi)"
    and "rlo + nrows v = rhi" and "clo + ncols v = chi" and "nchan v = nchan a \<or> nchan v = 1"
  shows "setitem a rs cs v = Inr (paste v rlo clo a)"
proof -
  have b: "broadcastable (nrows v) (slice_len (nrows a) rs)"
    "broadcastable (ncols v) (slice_len (ncols a) cs)" "broadcastable (nchan v) (nchan a)"
    using assms by (auto simp: broadcastable_def slice_len_def)
  have "(\<lambda>r c k. if in_slice (nrows a) rs r \<and> in_slice (ncols a) cs c \<and> k < nchan a
             then px v (bidx (nrows v) (r - fst (slice_indices (nrows a) rs)))
                       (bidx (ncols v) (c - fst (slice_indices (ncols a) cs)))
                       (bidx (nchan v) k)
             else px a r c k)
      = (\<lambda>r c k. if rlo \<le> r \<and> r < rlo + nrows v \<and> clo \<le> c \<and> c < clo + ncols v \<and> k < nchan a
          then px v (r - rlo) (c - clo) (bidx (nchan v) k)
          else px a r c k)"
  proof (intro ext)
    fix r c k
    have "bidx (nrows v) (r - rlo) = r - rlo" if "rlo \<le> r" "r < rlo + nrows v"
      using that by (auto simp: bidx_def)
    moreover have "bidx (ncols v) (c - clo) = c - clo" if "clo \<le> c" "c < clo + ncols v"
      using that by (auto simp: bidx_def)
    ultimately show "(if in_slice (nrows a) rs r \<and> in_slice (ncols a) cs c \<and> k < nchan a
             then px v (bidx (nrows v) (r - fst (slice_indices (nrows a) rs)))
                       (bidx (ncols v) (c - fst (slice_indices (ncols a) cs)))
                       (bidx (nchan v) k)
             else px a r c k)
      = (if rlo \<le> r \<and> r < rlo + nrows v \<and> clo \<le> c \<and> c < clo + ncols v \<and> k < nchan a
          then px v (r - rlo) (c - clo) (bidx (nchan v) k)
          else px a r c k)"
      using assms by (auto simp: in_slice_def)
  qed
  then show ?thesis using b by (simp add: setitem_def paste_def)
qed

lemma output_img_setitem_paste:
  assumes "output_img (self s) = Some p"
    and "slice_indices (nrows (heap s ! p)) rs = (rlo, rhi)"
    and "slice_indices (ncols (heap s ! p)) cs = (clo, chi)"
    and "rlo + nrows v = rhi" and "clo + ncols v = chi"
    and "nchan v = nchan (heap s ! p) \<or> nchan v = 1"
  shows "output_img_setitem rs cs v s = (None, s\<lparr>heap := (heap s)[p := paste v rlo clo (heap s ! p)]\<rparr>)"
  using assms(1) setitem_paste [OF assms(2-)] by (simp add: output_img_setitem_def)

lemma white_canvas_shape [simp]:
  "nrows (white_canvas w) = canvas_rows w" "ncols (white_canvas w) = canvas_cols w"
  "nchan (white_canvas w) = 3"
  by (simp_all add: white_canvas_def)

lemma tagged_canvas_shape [simp]:
  "nrows (tagged_canvas bm w) = canvas_rows w" "ncols (tagged_canvas bm w) = canvas_cols w"
  "nchan (tagged_canvas bm w) = 3"
  by (simp_all add: tagged_canvas_def)

lemma with_frame_shape [simp]:
  "nrows (with_frame w v a) = nrows a" "ncols (with_frame w v a) = ncols a"
  "nchan (with_frame w v a) = nchan a"
  by (simp_all add: with_frame_def)

lemma tag_array_shape [simp]:
  "nrows (tag_array pixels n) = n" "ncols (tag_array pixels n) = n"
  "nchan (tag_array pixels n) = 1"
  by (simp_all add: tag_array_def)

lemma initFrame_white:
  assumes "fits (self s)"
  shows "initFrame s = (None, s\<lparr>self := (self s)\<lparr>output_img := Some (length (heap s))\<rparr>,
                                  heap := heap s @ [white_canvas (self s)],
                                  entered := entered s @ [Call_initFrame]\<rparr>)"
  using assms
  by (subst initFrame_ok) (auto simp: fits_def white_canvas_def canvas_rows_def canvas_cols_def)

text \<open>One tag assignment on a canvas of the tracked size.\<close>

lemma tag_setitem:
  assumes "output_img (self s) = Some p" and "p < length (heap s)"
    and "nrows (heap s ! p) = canvas_rows (self s)" and "ncols (heap s ! p) = canvas_cols (self s)"
    and "nchan (heap s ! p) = 3"
    and "slice_indices (canvas_rows (self s)) rs = (rlo, rlo + n)"
    and "slice_indices (canvas_cols (self s)) cs = (clo, clo + n)"
  shows "output_img_setitem rs cs (tag_array pixels n) s
           = (None, s\<lparr>heap := (heap s)[p := paste (tag_array pixels n) rlo clo (heap s ! p)]\<rparr>)"
  using assms by (intro output_img_setitem_paste) simp_all

lemma addCornerTags_fits:
  assumes "fits (self s)" and "draws marker (nat (tag_size (self s))) bm"
    and "output_img (self s) = Some p" and "p < length (heap s)"
    and "heap s ! p = white_canvas (self s)"
  shows "addCornerTags marker s
           = (None, s\<lparr>heap := (heap s)[p := tagged_canvas bm (self s)],
                      entered := entered s @ [Call_addCornerTags]\<rparr>)"
proof -
  let ?w = "self s"
  let ?n = "nat (tag_size ?w)"
  let ?top = "nat (tag_border ?w)"
  let ?left = "nat (tag_border ?w)"
  let ?bottom = "nat (img_height ?w + tag_border ?w - tag_size ?w)"
  let ?right = "nat (3 * tag_border ?w + tag_size ?w + img_width ?w)"
  let ?s0 = "s\<lparr>entered := entered s @ [Call_addCornerTags]\<rparr>"
  note f = assms(1)
  have nn: "\<not> tag_size ?w < 0" using f by (simp add: fits_def)
  from assms(2) have m: "marker 0 ?n = Inr (bm 0 ?n)" "marker 1 ?n = Inr (bm 1 ?n)"
    "marker 2 ?n = Inr (bm 2 ?n)" "marker 3 ?n = Inr (bm 3 ?n)"
    by (simp_all add: draws_def)
  let ?a1 = "paste (tag_array (bm 0 ?n) ?n) ?top ?left (white_canvas ?w)"
  let ?s1 = "?s0\<lparr>heap := (heap s)[p := ?a1]\<rparr>"
  have 1: "output_img_setitem (fst (ul_slices ?w)) (snd (ul_slices ?w)) (tag_array (bm 0 ?n) ?n) ?s0
             = (None, ?s1)"
    using tag_setitem [where s = ?s0 and p = p and rs = "fst (ul_slices ?w)"
              and cs = "snd (ul_slices ?w)" and pixels = "bm 0 ?n"
              and n = ?n and rlo = ?top and clo = ?left]
      assms(3-) layout_rows(1) [OF f] layout_cols(1) [OF f]
    by simp
  let ?a2 = "paste (tag_array (bm 1 ?n) ?n) ?top ?right ?a1"
  let ?s2 = "?s0\<lparr>heap := (heap s)[p := ?a2]\<rparr>"
  have 2: "output_img_setitem (fst (ur_slices ?w)) (snd (ur_slices ?w)) (tag_array (bm 1 ?n) ?n) ?s1
             = (None, ?s2)"
    using tag_setitem [where s = ?s1 and p = p and rs = "fst (ur_slices ?w)"
              and cs = "snd (ur_slices ?w)" and pixels = "bm 1 ?n"
              and n = ?n and rlo = ?top and clo = ?right]
      assms(3-) layout_rows(2) [OF f] layout_cols(3) [OF f]
    by simp
  let ?a3 = "paste (tag_array (bm 2 ?n) ?n) ?bottom ?right ?a2"
  let ?s3 = "?s0\<lparr>heap := (heap s)[p := ?a3]\<rparr>"
  have 3: "output_img_setitem (fst (br_slices ?w)) (snd (br_slices ?w)) (tag_array (bm 2 ?n) ?n) ?s2
             = (None, ?s3)"
    using tag_setitem [where s = ?s2 and p = p and rs = "fst (br_slices ?w)"
              and cs = "snd (br_slices ?w)" and pixels = "bm 2 ?n"
              and n = ?n and rlo = ?bottom and clo = ?right]
      assms(3-) layout_rows(3) [OF f] layout_cols(4) [OF f]
    by simp
  let ?a4 = "paste (tag_array (bm 3 ?n) ?n) ?bottom ?left ?a3"
  let ?s4 = "?s0\<lparr>heap := (heap s)[p := ?a4]\<rparr>"
  have 4: "output_img_setitem (fst (bl_slices ?w)) (snd (bl_slices ?w)) (tag_array (bm 3 ?n) ?n) ?s3
             = (None, ?s4)"
    using tag_setitem [where s = ?s3 and p = p and rs = "fst (bl_slices ?w)"
              and cs = "snd (bl_slices ?w)" and pixels = "bm 3 ?n"
              and n = ?n and rlo = ?bottom and clo = ?left]
      assms(3-) layout_rows(4) [OF f] layout_cols(2) [OF f]
    by simp
  have "addCornerTags marker s = (None, ?s4)"
    unfolding addCornerTags_def Let_def
    by (simp only: nn if_False m sum.case 1 and_then_None 2 3 4)
  then show ?thesis by (simp add: tagged_canvas_def)
qed

lemma region_bounds:
  assumes "fits w"
  shows "(r, c) \<in> region w (ul_slices w) \<longleftrightarrow>
           nat (tag_border w) \<le> r \<and> r < nat (tag_border w) + nat (tag_size w) \<and>
           nat (tag_border w) \<le> c \<and> c < nat (tag_border w) + nat (tag_size w)"
    and "(r, c) \<in> region w (ur_slices w) \<longleftrightarrow>
           nat (tag_border w) \<le> r \<and> r < nat (tag_border w) + nat (tag_size w) \<and>
           nat (3 * tag_border w + tag_size w + img_width w) \<le> c \<and>
           c < nat (3 * tag_border w + tag_size w + img_width w) + nat (tag_size w)"
    and "(r, c) \<in> region w (br_slices w) \<longleftrightarrow>
           nat (img_height w + tag_border w - tag_size w) \<le> r \<and>
           r < nat (img_height w + tag_border w - tag_size w) + nat (tag_size w) \<and>
           nat (3 * tag_border w + tag_size w + img_width w) \<le> c \<and>
           c < nat (3 * tag_border w + tag_size w + img_width w) + nat (tag_size w)"
    and "(r, c) \<in> region w (bl_slices w) \<longleftrightarrow>
           nat (img_height w + tag_border w - tag_size w) \<le> r \<and>
           r < nat (img_height w + tag_border w - tag_size w) + nat (tag_size w) \<and>
           nat (tag_border w) \<le> c \<and> c < nat (tag_border w) + nat (tag_size w)"
    and "(r, c) \<in> region w (frame_slices w) \<longleftrightarrow>
           nat (tag_border w) \<le> r \<and> r < nat (tag_border w) + nat (img_height w) \<and>
           nat (2 * tag_border w + tag_size w) \<le> c \<and>
           c < nat (2 * tag_border w + tag_size w) + nat (img_width w)"
  by (simp_all add: region_def in_slice_def layout_rows [OF assms] layout_cols [OF assms])

lemma frame_setitem:
  assumes "fits (self s)" and "output_img (self s) = Some p"
    and "nrows (heap s ! p) = canvas_rows (self s)" and "ncols (heap s ! p) = canvas_cols (self s)"
    and "nchan (heap s ! p) = 3"
    and "nrows resized = nat (img_height (self s))" and "ncols resized = nat (img_width (self s))"
    and "nchan resized = 3"
  shows "output_img_setitem (fst (frame_slices (self s))) (snd (frame_slices (self s))) resized s
           = (None, s\<lparr>heap := (heap s)[p := with_frame (self s) resized (heap s ! p)]\<rparr>)"
  unfolding with_frame_def
  using output_img_setitem_paste [where s = s and p = p and v = resized
      and rs = "fst (frame_slices (self s))" and cs = "snd (frame_slices (self s))"
      and rlo = "nat (tag_border (self s))"
      and rhi = "nat (tag_border (self s)) + nat (img_height (self s))"
      and clo = "nat (2 * tag_border (self s) + tag_size (self s))"
      and chi = "nat (2 * tag_border (self s) + tag_size (self s)) + nat (img_width (self s))"]
    assms(2-) layout_rows(5) [OF assms(1)] layout_cols(5) [OF assms(1)]
  by simp






subsection \<open>The result of updateFrame when the layout fits\<close>

text \<open>The layout does not depend on the reference.\<close>

lemma output_img_irrelevant [simp]:
  "fits (w\<lparr>output_img := x\<rparr>) = fits w"
  "canvas_rows (w\<lparr>output_img := x\<rparr>) = canvas_rows w"
  "canvas_cols (w\<lparr>output_img := x\<rparr>) = canvas_cols w"
  "white_canvas (w\<lparr>output_img := x\<rparr>) = white_canvas w"
  "tagged_canvas bm (w\<lparr>output_img := x\<rparr>) = tagged_canvas bm w"
  "with_frame (w\<lparr>output_img := x\<rparr>) = with_frame w"
  "frame_slices (w\<lparr>output_img := x\<rparr>) = frame_slices w"
  "corner_tags_ok bm (w\<lparr>output_img := x\<rparr>) = corner_tags_ok bm w"
  "frame_ok (w\<lparr>output_img := x\<rparr>) = frame_ok w"
  by (simp_all add: fits_def canvas_rows_def canvas_cols_def white_canvas_def tagged_canvas_def
        with_frame_def frame_slices_def corner_tags_ok_def frame_ok_def fun_eq_iff)

lemma canvas_shape_int:
  assumes "fits w"
  shows "int (canvas_rows w) = img_height w + 2 * tag_border w"
    and "int (canvas_cols w) = img_width w + 2 * tag_size w + 4 * tag_border w"
  using assms by (simp_all add: fits_def canvas_rows_def canvas_cols_def)

lemma canvas_nonempty:
  assumes "fits w"
  shows "0 < canvas_rows w" and "0 < canvas_cols w"
  using assms by (simp_all add: fits_def canvas_rows_def canvas_cols_def)

lemma updateFrame_changed_fits:
  assumes d: "scaled_dim (self s) frame = Inr d" and ok: "resize frame d = Inr resized"
    and ch: "size_changed (self s) d"
    and f: "fits ((self s)\<lparr>img_height := snd d, img_width := fst d\<rparr>)"
    and m: "draws marker (nat (tag_size (self s))) bm"
    and shape: "nrows resized = nat (snd d)" "ncols resized = nat (fst d)" "nchan resized = 3"
  shows "updateFrame resize marker frame s =
     (None, s\<lparr>self := (self s)\<lparr>img_height := snd d, img_width := fst d,
                              output_img := Some (length (heap s))\<rparr>,
              heap := heap s @ [with_frame ((self s)\<lparr>img_height := snd d, img_width := fst d\<rparr>)
                                 resized
                                 (tagged_canvas bm
                                    ((self s)\<lparr>img_height := snd d, img_width := fst d\<rparr>))],
              display := display s @
                [Imshow (with_frame ((self s)\<lparr>img_height := snd d, img_width := fst d\<rparr>) resized
                                 (tagged_canvas bm
                                    ((self s)\<lparr>img_height := snd d, img_width := fst d\<rparr>)))],
              entered := entered s @ [Call_initFrame, Call_addCornerTags]\<rparr>)"
proof -
  define w where "w = (self s)\<lparr>img_height := snd d, img_width := fst d\<rparr>"
  define p where "p = length (heap s)"
  define e1 where "e1 = entered s @ [Call_initFrame]"
  define e2 where "e2 = entered s @ [Call_initFrame, Call_addCornerTags]"
  let ?s1 = "s\<lparr>self := w\<rparr>"
  let ?s2 = "s\<lparr>self := w\<lparr>output_img := Some p\<rparr>, heap := heap s @ [white_canvas w],
               entered := e1\<rparr>"
  let ?s3 = "s\<lparr>self := w\<lparr>output_img := Some p\<rparr>, heap := heap s @ [tagged_canvas bm w],
               entered := e2\<rparr>"
  let ?a = "with_frame w resized (tagged_canvas bm w)"
  let ?s4 = "s\<lparr>self := w\<lparr>output_img := Some p\<rparr>, heap := heap s @ [?a], entered := e2\<rparr>"
  have fw: "fits w" using f by (simp add: w_def)
  have mw: "draws marker (nat (tag_size w)) bm" using m by (simp add: w_def)
  have 1: "initFrame ?s1 = (None, ?s2)"
    using initFrame_white [of ?s1] fw by (simp add: p_def e1_def)
  have 2: "addCornerTags marker ?s2 = (None, ?s3)"
    using addCornerTags_fits [of ?s2 marker bm p] fw mw by (simp add: p_def e1_def e2_def)
  have hw: "img_height w = snd d" "img_width w = fst d"
    by (simp_all add: w_def)
  have 3: "output_img_setitem (fst (frame_slices (self ?s3))) (snd (frame_slices (self ?s3))) resized ?s3
             = (None, ?s4)"
    using frame_setitem [of ?s3 p resized] fw shape by (simp add: p_def hw)
  have 4: "imshow (output_img (self ?s4)) ?s4 = (None, ?s4\<lparr>display := display s @ [Imshow ?a]\<rparr>)"
    using canvas_nonempty [OF fw] by (simp add: imshow_def p_def)
  have "updateFrame resize marker frame s = (None, ?s4\<lparr>display := display s @ [Imshow ?a]\<rparr>)"
    unfolding updateFrame_Inr [where resize = resize and frame = frame and s = s, OF d ok]
    using ch by (simp only: if_True w_def [symmetric] 1 and_then_None 2 3 4)
  then show ?thesis by (simp add: w_def p_def e2_def)
qed

lemma ready_shape:
  assumes "ready s" and "fits (self s)"
  obtains p where "output_img (self s) = Some p" and "p < length (heap s)"
    and "nrows (heap s ! p) = canvas_rows (self s)" and "ncols (heap s ! p) = canvas_cols (self s)"
    and "nchan (heap s ! p) = 3"
proof -
  from assms(1) obtain p where p: "output_img (self s) = Some p" "p < length (heap s)"
    "int (nrows (heap s ! p)) = img_height (self s) + 2 * tag_border (self s)"
    "int (ncols (heap s ! p))
            = img_width (self s) + 2 * tag_size (self s) + 4 * tag_border (self s)"
    "nchan (heap s ! p) = 3"
    by (auto simp: ready_def split: option.splits)
  then have "nrows (heap s ! p) = canvas_rows (self s)" "ncols (heap s ! p) = canvas_cols (self s)"
    by (simp_all add: canvas_rows_def canvas_cols_def)
  with p that show thesis by blast
qed

lemma updateFrame_unchanged_fits:
  assumes d: "scaled_dim (self s) frame = Inr d" and ok: "resize frame d = Inr resized"
    and ch: "\<not> size_changed (self s) d"
    and f: "fits (self s)" and r: "ready s"
    and shape: "nrows resized = nat (img_height (self s))"
      "ncols resized = nat (img_width (self s))" "nchan resized = 3"
  shows "\<exists>p. output_img (self s) = Some p \<and> p < length (heap s) \<and>
     updateFrame resize marker frame s =
       (None, s\<lparr>heap := (heap s)[p := with_frame (self s) resized (heap s ! p)],
                display := display s @ [Imshow (with_frame (self s) resized (heap s ! p))]\<rparr>)"
proof -
  from r f obtain p where p: "output_img (self s) = Some p" "p < length (heap s)"
    "nrows (heap s ! p) = canvas_rows (self s)" "ncols (heap s ! p) = canvas_cols (self s)"
    "nchan (heap s ! p) = 3"
    by (rule ready_shape)
  let ?a = "with_frame (self s) resized (heap s ! p)"
  let ?s4 = "s\<lparr>heap := (heap s)[p := ?a]\<rparr>"
  have 3: "output_img_setitem (fst (frame_slices (self s))) (snd (frame_slices (self s))) resized s
             = (None, ?s4)"
    using frame_setitem [of s p resized] f p shape by simp
  have 4: "imshow (output_img (self ?s4)) ?s4 = (None, ?s4\<lparr>display := display s @ [Imshow ?a]\<rparr>)"
    using p canvas_nonempty [OF f] by (simp add: imshow_def)
  have "updateFrame resize marker frame s = (None, ?s4\<lparr>display := display s @ [Imshow ?a]\<rparr>)"
    unfolding updateFrame_Inr [where resize = resize and frame = frame and s = s, OF d ok]
    using ch by (simp only: if_False and_then_None 3 4)
  with p show ?thesis by simp
qed

text \<open>
  What a call leaves behind when the layout fits: the canvas is the previous one (or a new
  tagged one) with the frame written into the interior.
\<close>

lemma updateFrame_fits:
  assumes d: "scaled_dim (self s) frame = Inr d" and ok: "resize frame d = Inr resized"
    and f: "fits ((self s)\<lparr>img_height := snd d, img_width := fst d\<rparr>)"
    and m: "draws marker (nat (tag_size (self s))) bm"
    and shape: "nrows resized = nat (snd d)" "ncols resized = nat (fst d)" "nchan resized = 3"
    and st: "size_changed (self s) d \<or> ready s"
  obtains a0 where
    "fst (updateFrame resize marker frame s) = None"
    "canvas_of (snd (updateFrame resize marker frame s))
       = Some (with_frame (self (snd (updateFrame resize marker frame s))) resized a0)"
    "shown_since s (snd (updateFrame resize marker frame s))
       = [Imshow (with_frame (self (snd (updateFrame resize marker frame s))) resized a0)]"
    "ready (snd (updateFrame resize marker frame s))"
    "fits (self (snd (updateFrame resize marker frame s)))"
    "nchan a0 = 3"
    "img_height (self (snd (updateFrame resize marker frame s))) = snd d"
    "img_width (self (snd (updateFrame resize marker frame s))) = fst d"
    "tag_size (self (snd (updateFrame resize marker frame s))) = tag_size (self s)"
    "tag_border (self (snd (updateFrame resize marker frame s))) = tag_border (self s)"
    "if size_changed (self s) d
     then a0 = tagged_canvas bm (self (snd (updateFrame resize marker frame s)))
     else canvas_of s = Some a0 \<and> self (snd (updateFrame resize marker frame s)) = self s"
proof (cases "size_changed (self s) d")
  case True
  let ?w = "(self s)\<lparr>img_height := snd d, img_width := fst d\<rparr>"
  note eq = updateFrame_changed_fits [where resize = resize and frame = frame and s = s
      and marker = marker, OF d ok True f m shape]
  show thesis
  proof (rule that [of "tagged_canvas bm ?w"])
    show "ready (snd (updateFrame resize marker frame s))"
      using canvas_shape_int [OF f] by (simp add: eq ready_def)
  qed (use True f in \<open>simp_all add: eq canvas_of_def shown_since_def\<close>)
next
  case False
  then have tr: "snd d = img_height (self s)" "fst d = img_width (self s)"
    by (simp_all add: size_changed_def)
  have w: "(self s)\<lparr>img_height := snd d, img_width := fst d\<rparr> = self s"
    by (simp add: tr)
  from False st have r: "ready s" by simp
  have fs: "fits (self s)" using f by (simp only: w)
  from updateFrame_unchanged_fits [where resize = resize and frame = frame and s = s
      and marker = marker, OF d ok False fs r] shape
  obtain p where p: "output_img (self s) = Some p" "p < length (heap s)"
    and eq: "updateFrame resize marker frame s =
       (None, s\<lparr>heap := (heap s)[p := with_frame (self s) resized (heap s ! p)],
                display := display s @ [Imshow (with_frame (self s) resized (heap s ! p))]\<rparr>)"
    by (auto simp: tr)
  from r p have sh: "int (nrows (heap s ! p)) = img_height (self s) + 2 * tag_border (self s)"
    "int (ncols (heap s ! p)) = img_width (self s) + 2 * tag_size (self s) + 4 * tag_border (self s)"
    "nchan (heap s ! p) = 3"
    by (simp_all add: ready_def)
  show thesis
  proof (rule that [of "heap s ! p"])
    show "ready (snd (updateFrame resize marker frame s))"
      using p sh by (simp add: eq ready_def)
  qed (use False fs p sh tr in \<open>simp_all add: eq canvas_of_def shown_since_def\<close>)
qed

subsection \<open>The sample inputs\<close>

lemma sample_resize_ok:
  "0 < fst d \<Longrightarrow> 0 < snd d \<Longrightarrow> 0 < nrows frame \<Longrightarrow> 0 < ncols frame \<Longrightarrow>
   \<exists>resized. sample_resize frame d = Inr resized \<and> nrows resized = nat (snd d) \<and>
     ncols resized = nat (fst d) \<and> nchan resized = nchan frame"
  by (simp add: sample_resize_def)


lemma sample_frame_shape [simp]:
  "nrows (sample_frame h w) = h" "ncols (sample_frame h w) = w" "nchan (sample_frame h w) = 3"
  by (simp_all add: sample_frame_def)

lemma sample_marker_draws: "6 \<le> n \<Longrightarrow> draws sample_marker n sample_bitmaps"
  by (simp add: draws_def sample_marker_def)


lemmas eval_defs = updateFrame_def scaled_dim_def int_of_product_def py_mul_def py_int_def
    sample_frame_def sample_resize_def ArucoWindow_init_def
    size_changed_def initFrame_def np_ones_255_def and_then_def addCornerTags_def output_img_setitem_def
    setitem_def ul_slices_def ur_slices_def br_slices_def bl_slices_def frame_slices_def tag_array_def
    broadcastable_def slice_len_def slice_indices_def slice_index_def imshow_def in_slice_def bidx_def
    updateCursor_def draw_overlay_def sample_circle_def fits_int32_def sample_marker_def reallocated_def

section \<open>The claims\<close>

subsection \<open>The canvas size\<close>

text \<open>
  C1. For a valid configuration (\<open>tag_size > 0\<close>, \<open>tag_border \<ge> 0\<close>) and a tracked frame
  size that is not negative, \<open>initFrame\<close> returns normally and the array it binds to
  \<open>output_img\<close> has \<open>img_width + 2*tag_size + 4*tag_border\<close> columns,
  \<open>img_height + 2*tag_border\<close> rows and three channels, also for the size (0, 0).
\<close>

theorem initFrame_canvas_size:
  assumes "0 < tag_size (self s)" and "0 \<le> tag_border (self s)"
    and "0 \<le> img_height (self s)" and "0 \<le> img_width (self s)"
  shows "\<exists>p. fst (initFrame s) = None
           \<and> output_img (self (snd (initFrame s))) = Some p
           \<and> p < length (heap (snd (initFrame s)))
           \<and> int (ncols (heap (snd (initFrame s)) ! p))
               = img_width (self s) + 2 * tag_size (self s) + 4 * tag_border (self s)
           \<and> int (nrows (heap (snd (initFrame s)) ! p))
               = img_height (self s) + 2 * tag_border (self s)
           \<and> nchan (heap (snd (initFrame s)) ! p) = 3"
  using assms by (simp add: initFrame_def np_ones_255_def)

text \<open>
  The defaults with a tracked frame of 640 by 480: a canvas of 880 by 500.
\<close>

theorem initFrame_canvas_size_witness:
  "\<exists>p. fst (initFrame s640) = None
       \<and> output_img (self (snd (initFrame s640))) = Some p
       \<and> p < length (heap (snd (initFrame s640)))
       \<and> ncols (heap (snd (initFrame s640)) ! p) = 880
       \<and> nrows (heap (snd (initFrame s640)) ! p) = 500
       \<and> nchan (heap (snd (initFrame s640)) ! p) = 3"
  using initFrame_canvas_size [of s640]
  by (simp add: s640_def ArucoWindow_init_def)

subsection \<open>The canvas after updateFrame\<close>




subsection \<open>The five regions\<close>

text \<open>
  C3 (amended). For \<open>tag_size > 0\<close>, \<open>tag_border \<ge> 0\<close> and a frame size that is not
  negative, the frame region is disjoint from each of the four tag regions, and each
  left tag region is disjoint from each right one. The two tag regions on one side (upper
  and lower left, upper and lower right) are disjoint when the frame is at least two tags
  high, or has no height at all.
\<close>

theorem regions_disjoint:
  assumes "0 < tag_size w" and "0 \<le> tag_border w" and "0 \<le> img_height w" and "0 \<le> img_width w"
  shows "region w (frame_slices w) \<inter> region w (ul_slices w) = {}
       \<and> region w (frame_slices w) \<inter> region w (ur_slices w) = {}
       \<and> region w (frame_slices w) \<inter> region w (br_slices w) = {}
       \<and> region w (frame_slices w) \<inter> region w (bl_slices w) = {}
       \<and> region w (ul_slices w) \<inter> region w (ur_slices w) = {}
       \<and> region w (ul_slices w) \<inter> region w (br_slices w) = {}
       \<and> region w (bl_slices w) \<inter> region w (ur_slices w) = {}
       \<and> region w (bl_slices w) \<inter> region w (br_slices w) = {}
       \<and> (img_height w = 0 \<or> 2 * tag_size w \<le> img_height w \<longrightarrow>
            region w (ul_slices w) \<inter> region w (bl_slices w) = {}
          \<and> region w (ur_slices w) \<inter> region w (br_slices w) = {})"
proof (intro conjI impI)
  show "region w (frame_slices w) \<inter> region w (ul_slices w) = {}"
    using assms by (intro region_disjointI) (auto simp: slice_defs canvas_cols_def canvas_rows_def split: if_splits)
  show "region w (frame_slices w) \<inter> region w (ur_slices w) = {}"
    using assms by (intro region_disjointI) (auto simp: slice_defs canvas_cols_def canvas_rows_def split: if_splits)
  show "region w (frame_slices w) \<inter> region w (br_slices w) = {}"
    using assms by (intro region_disjointI) (auto simp: slice_defs canvas_cols_def canvas_rows_def split: if_splits)
  show "region w (frame_slices w) \<inter> region w (bl_slices w) = {}"
    using assms by (intro region_disjointI) (auto simp: slice_defs canvas_cols_def canvas_rows_def split: if_splits)
  show "region w (ul_slices w) \<inter> region w (ur_slices w) = {}"
    using assms by (intro region_disjointI) (auto simp: slice_defs canvas_cols_def canvas_rows_def split: if_splits)
  show "region w (ul_slices w) \<inter> region w (br_slices w) = {}"
    using assms by (intro region_disjointI) (auto simp: slice_defs canvas_cols_def canvas_rows_def split: if_splits)
  show "region w (bl_slices w) \<inter> region w (ur_slices w) = {}"
    using assms by (intro region_disjointI) (auto simp: slice_defs canvas_cols_def canvas_rows_def split: if_splits)
  show "region w (bl_slices w) \<inter> region w (br_slices w) = {}"
    using assms by (intro region_disjointI) (auto simp: slice_defs canvas_cols_def canvas_rows_def split: if_splits)
next
  assume h: "img_height w = 0 \<or> 2 * tag_size w \<le> img_height w"
  show "region w (ul_slices w) \<inter> region w (bl_slices w) = {}"
    using assms h by (intro region_disjointI) (auto simp: slice_defs canvas_cols_def canvas_rows_def split: if_splits)
  show "region w (ur_slices w) \<inter> region w (br_slices w) = {}"
    using assms h by (intro region_disjointI) (auto simp: slice_defs canvas_cols_def canvas_rows_def split: if_splits)
qed

text \<open>
  C3 as stated fails: the canvas is only \<open>2*tag_border\<close> higher than the frame, so for a
  frame lower than two tags the lower tags reach into the upper ones. With the defaults
  and a frame of 640 by 100, \<open>updateFrame\<close> returns, and the pixel at row 10, column 10
  lies in the upper left and in the lower left tag region.
\<close>

theorem left_tags_overlap_on_low_frame:
  "fst (updateFrame sample_resize sample_marker (sample_frame 100 640)
         (snd (ArucoWindow_init 100 10 (PyInt 1))))
     = None
   \<and> (10, 10) \<in> region (self (snd (updateFrame sample_resize sample_marker (sample_frame 100 640)
                                    (snd (ArucoWindow_init 100 10 (PyInt 1))))))
                    (ul_slices (self (snd (updateFrame sample_resize sample_marker (sample_frame 100 640)
                                    (snd (ArucoWindow_init 100 10 (PyInt 1)))))))
                \<inter> region (self (snd (updateFrame sample_resize sample_marker (sample_frame 100 640)
                                    (snd (ArucoWindow_init 100 10 (PyInt 1))))))
                    (bl_slices (self (snd (updateFrame sample_resize sample_marker (sample_frame 100 640)
                                    (snd (ArucoWindow_init 100 10 (PyInt 1)))))))"
proof -
  let ?s = "snd (updateFrame sample_resize sample_marker (sample_frame 100 640)
                  (snd (ArucoWindow_init 100 10 (PyInt 1))))"
  have d: "scaled_dim (self (snd (ArucoWindow_init 100 10 (PyInt 1)))) (sample_frame 100 640)
             = Inr (640, 100)"
    by (simp add: sample_frame_def)
  have ok: "sample_resize (sample_frame 100 640) (640, 100)
            = Inr (projr (sample_resize (sample_frame 100 640) (640, 100)))"
    by (simp add: sample_resize_def sample_frame_def)
  have f: "img_height (self ?s) = 100" "img_width (self ?s) = 640"
    "tag_size (self ?s) = 100" "tag_border (self ?s) = 10"
    using updateFrame_fields [where resize = sample_resize and marker = sample_marker
        and s = "snd (ArucoWindow_init 100 10 (PyInt 1))" and frame = "sample_frame 100 640",
        OF d ok]
    by simp_all
  have 1: "fst (updateFrame sample_resize sample_marker (sample_frame 100 640)
                 (snd (ArucoWindow_init 100 10 (PyInt 1)))) = None"
    by (simp add: eval_defs)
  have 2: "(10, 10) \<in> region (self ?s) (ul_slices (self ?s)) \<inter> region (self ?s) (bl_slices (self ?s))"
    by (simp add: region_def slice_defs canvas_rows_def canvas_cols_def f)
  show ?thesis using 1 2 by blast
qed

text \<open>
  The defaults with a frame of 640 by 480: the regions are disjoint, and none is empty.
\<close>

theorem regions_disjoint_witness:
  "region (self s640) (frame_slices (self s640)) \<inter> region (self s640) (ul_slices (self s640)) = {}
   \<and> region (self s640) (frame_slices (self s640)) \<inter> region (self s640) (br_slices (self s640)) = {}
   \<and> region (self s640) (ul_slices (self s640)) \<inter> region (self s640) (ur_slices (self s640)) = {}
   \<and> region (self s640) (ul_slices (self s640)) \<inter> region (self s640) (bl_slices (self s640)) = {}
   \<and> region (self s640) (ur_slices (self s640)) \<inter> region (self s640) (br_slices (self s640)) = {}
   \<and> (10, 10) \<in> region (self s640) (ul_slices (self s640))
   \<and> (390, 10) \<in> region (self s640) (bl_slices (self s640))
   \<and> (10, 770) \<in> region (self s640) (ur_slices (self s640))
   \<and> (390, 770) \<in> region (self s640) (br_slices (self s640))
   \<and> (10, 120) \<in> region (self s640) (frame_slices (self s640))"
proof -
  have f: "tag_size (self s640) = 100" "tag_border (self s640) = 10"
    "img_height (self s640) = 480" "img_width (self s640) = 640"
    by (simp_all add: s640_def ArucoWindow_init_def)
  have m: "(10, 10) \<in> region (self s640) (ul_slices (self s640))
   \<and> (390, 10) \<in> region (self s640) (bl_slices (self s640))
   \<and> (10, 770) \<in> region (self s640) (ur_slices (self s640))
   \<and> (390, 770) \<in> region (self s640) (br_slices (self s640))
   \<and> (10, 120) \<in> region (self s640) (frame_slices (self s640))"
    by (simp add: region_def slice_defs canvas_rows_def canvas_cols_def f)
  show ?thesis
    using regions_disjoint [of "self s640"] m by (simp add: f)
qed

subsection \<open>Reallocation\<close>

text \<open>
  C4 (amended). A call reallocated when it entered \<open>initFrame\<close> and then \<open>addCornerTags\<close>
  and left \<open>output_img\<close> bound to a new array. Start from the constructed object, with
  \<open>tag_size \<ge> 0\<close>, \<open>tag_border \<ge> 0\<close> and a rescale factor that is not negative, and feed
  frames whose scaled sizes \<open>ds\<close> are computed without overflow and on which the resize
  returns. Then the calls of \<open>updateFrame\<close> that reallocate are exactly those whose scaled
  size differs from the tracked size, which starts at (0, 0). So frames of sizes
  A, A, B, B, A with A and B distinct and A different from (0, 0) reallocate on the
  calls 1, 3 and 5 only, and frames that all have one size other than (0, 0) reallocate
  on the first call only.
\<close>

theorem reallocation_follows_size_change:
  assumes "0 \<le> ts" and "0 \<le> tb" and "0 \<le> number_val r"
    and "list_all2 (\<lambda>f d. scaled_dim (self (snd (ArucoWindow_init ts tb r))) f = Inr d
                          \<and> \<not> isl (resize f d)) frames ds"
  shows "reallocs resize marker frames (snd (ArucoWindow_init ts tb r)) = size_changes (0, 0) ds
       \<and> (ds = [A, A, B, B, A] \<and> A \<noteq> B \<and> A \<noteq> (0, 0)
          \<longrightarrow> reallocs resize marker frames (snd (ArucoWindow_init ts tb r))
                = [True, False, True, False, True])
       \<and> (ds = replicate (Suc n) A \<and> A \<noteq> (0, 0)
          \<longrightarrow> reallocs resize marker frames (snd (ArucoWindow_init ts tb r))
                = True # replicate n False)"
proof -
  let ?s0 = "snd (ArucoWindow_init ts tb r)"
  have 1: "reallocs resize marker frames ?s0 = size_changes (0, 0) ds"
    using reallocs_eq_size_changes [of "self ?s0" resize frames ds ?s0 marker] assms
    by (simp add: ArucoWindow_init_def)
  have 2: "size_changes A (replicate n A) = replicate n False" for n
    by (induction n) simp_all
  show ?thesis
    using 1 2 by auto
qed

text \<open>
  C4 as stated fails when A is (0, 0), the size the object tracks from construction. For
  a frame of that size the resize raises \<open>cv2.error\<close> before the sizes are compared, and
  the object is left as it was: of the calls A, A, B, B, A only the third reallocates.
\<close>

theorem first_empty_frame_no_reallocation:
  "reallocs sample_resize sample_marker
     [sample_frame 0 0, sample_frame 0 0, sample_frame 480 640, sample_frame 480 640, sample_frame 0 0]
     (snd (ArucoWindow_init 100 10 (PyInt 1)))
   = [False, False, True, False, False]
   \<and> updateFrame sample_resize sample_marker (sample_frame 0 0)
       (snd (ArucoWindow_init 100 10 (PyInt 1)))
       = (Some CvError, snd (ArucoWindow_init 100 10 (PyInt 1)))"
proof -
  let ?s0 = "snd (ArucoWindow_init 100 10 (PyInt 1))"
  let ?e = "sample_frame 0 0"
  let ?f = "sample_frame 480 640"
  let ?s1 = "snd (updateFrame sample_resize sample_marker ?f ?s0)"
  let ?s2 = "snd (updateFrame sample_resize sample_marker ?f ?s1)"
  obtain v where v: "sample_resize ?f (640, 480) = Inr v"
    using sample_resize_ok [of "(640, 480)" ?f] by auto
  have e: "sample_resize ?e (0, 0) = Inl CvError"
    by (simp add: sample_resize_def)
  have f1: "tag_size (self ?s1) = 100" "tag_border (self ?s1) = 10" "img_height (self ?s1) = 480"
    "img_width (self ?s1) = 640" "image_rescale (self ?s1) = PyInt 1"
    using updateFrame_fields [where resize = sample_resize and frame = ?f and s = ?s0
        and marker = sample_marker and d = "(640, 480)", OF _ v]
    by simp_all
  have f2: "image_rescale (self ?s2) = PyInt 1"
    using updateFrame_config [of sample_resize sample_marker ?f ?s1] by (simp add: f1)
  have "reallocs sample_resize sample_marker [?e] ?s2 = [False]"
    using reallocs_error [where resize = sample_resize and f = ?e and s = ?s2 and d = "(0, 0)"
        and marker = sample_marker and fs = "[]", OF _ e]
    by (simp add: f2)
  then have "reallocs sample_resize sample_marker [?f, ?e] ?s1 = [False, False]"
    using reallocs_step [where resize = sample_resize and f = ?f and s = ?s1 and d = "(640, 480)"
        and marker = sample_marker and fs = "[?e]", OF _ v]
    by (simp add: f1 size_changed_def)
  then have "reallocs sample_resize sample_marker [?f, ?f, ?e] ?s0 = [True, False, False]"
    using reallocs_step [where resize = sample_resize and f = ?f and s = ?s0 and d = "(640, 480)"
        and marker = sample_marker and fs = "[?f, ?e]", OF _ v]
    by (simp add: size_changed_def)
  then have "reallocs sample_resize sample_marker [?e, ?f, ?f, ?e] ?s0
               = [False, True, False, False]"
    using reallocs_error [where resize = sample_resize and f = ?e and s = ?s0 and d = "(0, 0)"
        and marker = sample_marker and fs = "[?f, ?f, ?e]", OF _ e]
    by simp
  then have 1: "reallocs sample_resize sample_marker [?e, ?e, ?f, ?f, ?e] ?s0
               = [False, False, True, False, False]"
    using reallocs_error [where resize = sample_resize and f = ?e and s = ?s0 and d = "(0, 0)"
        and marker = sample_marker and fs = "[?e, ?f, ?f, ?e]", OF _ e]
    by simp
  have 2: "updateFrame sample_resize sample_marker ?e ?s0 = (Some CvError, ?s0)"
    using updateFrame_resize_error [where resize = sample_resize and frame = ?e and s = ?s0
        and marker = sample_marker and d = "(0, 0)", OF _ e]
    by simp
  show ?thesis using 1 2 by simp
qed

text \<open>
  Frames of 640 by 480 and 320 by 240 in the order A, A, B, B, A, and three frames of one size.
\<close>

theorem reallocation_follows_size_change_witness:
  "reallocs sample_resize sample_marker
     [sample_frame 480 640, sample_frame 480 640, sample_frame 240 320, sample_frame 240 320,
      sample_frame 480 640]
     (snd (ArucoWindow_init 100 10 (PyInt 1)))
   = [True, False, True, False, True]
   \<and> reallocs sample_resize sample_marker
     [sample_frame 480 640, sample_frame 480 640, sample_frame 480 640]
     (snd (ArucoWindow_init 100 10 (PyInt 1)))
   = [True, False, False]"
  using reallocation_follows_size_change [where ts = 100 and tb = 10 and r = "PyInt 1"
      and resize = sample_resize and marker = sample_marker and A = "(640, 480)" and B = "(320, 240)"
      and frames = "[sample_frame 480 640, sample_frame 480 640, sample_frame 240 320,
                     sample_frame 240 320, sample_frame 480 640]"
      and ds = "[(640, 480), (640, 480), (320, 240), (320, 240), (640, 480)]"]
    reallocation_follows_size_change [where ts = 100 and tb = 10 and r = "PyInt 1"
      and resize = sample_resize and marker = sample_marker and A = "(640, 480)" and n = 2
      and frames = "[sample_frame 480 640, sample_frame 480 640, sample_frame 480 640]"
      and ds = "[(640, 480), (640, 480), (640, 480)]"]
  by (simp add: number_val_def sample_frame_def sample_resize_def numeral_2_eq_2)

subsection \<open>The scaled size\<close>




subsection \<open>When updateFrame completes\<close>

text \<open>
  C6 (amended). Let the border be at least one pixel and the tag size positive, let
  \<open>drawMarker\<close> return bitmaps for the markers 0 to 3 at this size (OpenCV needs a side of
  6 pixels or more), let the scaled size \<open>d\<close> be computed without overflow, not negative
  and at least \<open>tag_size - tag_border\<close> high, and let the call reallocate or find the
  canvas allocated with the shape of the tracked size. If the resize returns an array of
  the scaled size with three channels, \<open>updateFrame\<close> returns without an error and leaves
  the canvas allocated with the shape of the tracked size, as the next call needs it. If
  the resize raises, as OpenCV's does for a frame or a scaled size without width or
  height, \<open>updateFrame\<close> raises the same error and leaves the object as it was: no canvas
  of tags and border alone is produced.
\<close>

theorem updateFrame_completes:
  assumes "0 < tag_border (self s)" and "0 < tag_size (self s)"
    and "draws marker (nat (tag_size (self s))) bm"
    and "scaled_dim (self s) frame = Inr d"
    and "0 \<le> fst d" and "0 \<le> snd d"
    and "tag_size (self s) \<le> snd d + tag_border (self s)"
    and "size_changed (self s) d \<or> ready s"
  shows "case resize frame d of
           Inl e \<Rightarrow> updateFrame resize marker frame s = (Some e, s)
         | Inr resized \<Rightarrow>
             nrows resized = nat (snd d) \<and> ncols resized = nat (fst d) \<and> nchan resized = 3
             \<longrightarrow> fst (updateFrame resize marker frame s) = None
                 \<and> ready (snd (updateFrame resize marker frame s))"
proof (cases "resize frame d")
  case (Inl e)
  with assms(4) show ?thesis by (simp add: updateFrame_def)
next
  case (Inr resized)
  have f: "fits ((self s)\<lparr>img_height := snd d, img_width := fst d\<rparr>)"
    using assms(1,2,5,6,7) by (simp add: fits_def)
  have "fst (updateFrame resize marker frame s) = None
        \<and> ready (snd (updateFrame resize marker frame s))"
    if sh: "nrows resized = nat (snd d)" "ncols resized = nat (fst d)" "nchan resized = 3"
    using updateFrame_fits [where resize = resize and frame = frame and s = s and marker = marker,
      OF assms(4) Inr f assms(3) sh assms(8)]
    by blast
  with Inr show ?thesis by simp
qed

text \<open>
  C6 as stated fails: with \<open>tag_border = 0\<close> the upper right tag is assigned to an empty
  slice (\<open>ValueError\<close>); with the defaults a frame of 50 rows leaves a canvas too low for
  a tag (\<open>ValueError\<close>); for a frame of size zero the resize raises (\<open>cv2.error\<close>); and
  for a tag size of 3 \<open>drawMarker\<close> raises (\<open>cv2.error\<close>).
\<close>

theorem updateFrame_raises:
  "fst (updateFrame sample_resize sample_marker (sample_frame 480 640)
         (snd (ArucoWindow_init 100 0 (PyInt 1))))
     = Some ValueError
   \<and> fst (updateFrame sample_resize sample_marker (sample_frame 50 640)
           (snd (ArucoWindow_init 100 10 (PyInt 1))))
     = Some ValueError
   \<and> fst (updateFrame sample_resize sample_marker (sample_frame 0 0)
           (snd (ArucoWindow_init 100 10 (PyInt 1))))
     = Some CvError
   \<and> fst (updateFrame sample_resize sample_marker (sample_frame 480 640)
           (snd (ArucoWindow_init 3 10 (PyInt 1))))
     = Some CvError"
  by (simp add: eval_defs)

text \<open>
  The defaults: a frame of 640 by 480 completes, a second one completes on the canvas the
  first left, and so does a frame of 1 by 90, which is lower than a tag. A frame without
  width raises \<open>cv2.error\<close> and leaves the constructed object as it was.
\<close>

theorem updateFrame_completes_witness:
  "fst (updateFrame sample_resize sample_marker (sample_frame 480 640)
         (snd (ArucoWindow_init 100 10 (PyInt 1)))) = None
   \<and> fst (updateFrame sample_resize sample_marker (sample_frame 480 640)
            (snd (updateFrame sample_resize sample_marker (sample_frame 480 640)
                   (snd (ArucoWindow_init 100 10 (PyInt 1)))))) = None
   \<and> fst (updateFrame sample_resize sample_marker (sample_frame 90 1)
            (snd (updateFrame sample_resize sample_marker (sample_frame 480 640)
                   (snd (ArucoWindow_init 100 10 (PyInt 1)))))) = None
   \<and> updateFrame sample_resize sample_marker (sample_frame 480 0)
        (snd (ArucoWindow_init 100 10 (PyInt 1)))
       = (Some CvError, snd (ArucoWindow_init 100 10 (PyInt 1)))"
proof -
  let ?s0 = "snd (ArucoWindow_init 100 10 (PyInt 1))"
  let ?f = "sample_frame 480 640"
  let ?s' = "snd (updateFrame sample_resize sample_marker ?f ?s0)"
  obtain v where v: "sample_resize ?f (640, 480) = Inr v" "nrows v = 480" "ncols v = 640"
    "nchan v = 3"
    using sample_resize_ok [of "(640, 480)" ?f] by auto
  obtain u where u: "sample_resize (sample_frame 90 1) (1, 90) = Inr u" "nrows u = 90"
    "ncols u = 1" "nchan u = 3"
    using sample_resize_ok [of "(1, 90)" "sample_frame 90 1"] by auto
  have fields: "tag_size (self ?s') = 100" "tag_border (self ?s') = 10" "img_height (self ?s') = 480"
    "img_width (self ?s') = 640" "image_rescale (self ?s') = PyInt 1"
    using updateFrame_fields [where resize = sample_resize and frame = ?f and s = ?s0
        and marker = sample_marker and d = "(640, 480)", OF _ v(1)]
    by simp_all
  have 1: "fst (updateFrame sample_resize sample_marker ?f ?s0) = None" and rd: "ready ?s'"
    using updateFrame_completes [where s = ?s0 and resize = sample_resize and frame = ?f
      and marker = sample_marker and bm = sample_bitmaps and d = "(640, 480)"] v
    by (simp_all add: size_changed_def sample_marker_draws)
  have 2: "fst (updateFrame sample_resize sample_marker ?f ?s') = None"
    using updateFrame_completes [where s = ?s' and resize = sample_resize and frame = ?f
      and marker = sample_marker and bm = sample_bitmaps and d = "(640, 480)"] v rd
    by (simp add: fields sample_marker_draws)
  have 3: "fst (updateFrame sample_resize sample_marker (sample_frame 90 1) ?s') = None"
    using updateFrame_completes [where s = ?s' and resize = sample_resize
      and frame = "sample_frame 90 1"
      and marker = sample_marker and bm = sample_bitmaps and d = "(1, 90)"] u
    by (simp add: fields sample_marker_draws size_changed_def)
  have 4: "updateFrame sample_resize sample_marker (sample_frame 480 0) ?s0 = (Some CvError, ?s0)"
    using updateFrame_completes [where s = ?s0 and resize = sample_resize
      and frame = "sample_frame 480 0"
      and marker = sample_marker and bm = sample_bitmaps and d = "(0, 480)"]
    by (simp add: sample_marker_draws size_changed_def sample_resize_def)
  show ?thesis using 1 2 3 4 by simp
qed

subsection \<open>The overlay does not touch the canvas\<close>

text \<open>
  C7. Any number of \<open>updateCursor\<close> calls, with any positions and point lists, leave the
  pixels of the canvas as they were. A following \<open>updateFrame\<close> therefore has the same
  result as without them: the same outcome, the same canvas pixels, the same image shown
  and the same tracked size.
\<close>

theorem updateCursor_leaves_canvas:
  assumes "refs_ok s"
  shows "canvas_of (updateCursors circle calls s) = canvas_of s
       \<and> fst (updateFrame resize marker frame (updateCursors circle calls s))
           = fst (updateFrame resize marker frame s)
       \<and> canvas_of (snd (updateFrame resize marker frame (updateCursors circle calls s)))
           = canvas_of (snd (updateFrame resize marker frame s))
       \<and> shown_since (updateCursors circle calls s)
            (snd (updateFrame resize marker frame (updateCursors circle calls s)))
           = shown_since s (snd (updateFrame resize marker frame s))
       \<and> img_height (self (snd (updateFrame resize marker frame (updateCursors circle calls s))))
           = img_height (self (snd (updateFrame resize marker frame s)))
       \<and> img_width (self (snd (updateFrame resize marker frame (updateCursors circle calls s))))
           = img_width (self (snd (updateFrame resize marker frame s)))"
proof -
  let ?t = "updateCursors circle calls s"
  have v: "same_view ?t s" using assms by (rule same_view_updateCursors)
  from same_view_updateFrame [OF v, of resize marker frame]
  have o: "same_outcome (updateFrame resize marker frame ?t) (updateFrame resize marker frame s)" .
  show ?thesis
    using v o
    by (simp add: updateFrame_shown same_outcome_def same_view_def split: option.splits)
qed

text \<open>
  Two cursor calls on an allocated canvas, followed by a frame of 640 by 480.
\<close>

theorem updateCursor_leaves_canvas_witness:
  "canvas_of (updateCursors sample_circle [(5, 5, [(1, 2)]), (100, 200, [])] (snd (initFrame s640)))
     = canvas_of (snd (initFrame s640))
   \<and> fst (updateFrame sample_resize sample_marker (sample_frame 480 640)
          (updateCursors sample_circle [(5, 5, [(1, 2)]), (100, 200, [])] (snd (initFrame s640))))
     = fst (updateFrame sample_resize sample_marker (sample_frame 480 640) (snd (initFrame s640)))
   \<and> canvas_of (snd (updateFrame sample_resize sample_marker (sample_frame 480 640)
          (updateCursors sample_circle [(5, 5, [(1, 2)]), (100, 200, [])] (snd (initFrame s640)))))
     = canvas_of (snd (updateFrame sample_resize sample_marker (sample_frame 480 640)
          (snd (initFrame s640))))"
proof -
  have r: "refs_ok (snd (initFrame s640))"
    by (simp add: refs_ok_def s640_def eval_defs)
  show ?thesis
    using updateCursor_leaves_canvas [OF r, of sample_circle "[(5, 5, [(1, 2)]), (100, 200, [])]"
      sample_resize sample_marker "sample_frame 480 640"]
    by simp
qed

subsection \<open>Construction\<close>

text \<open>
  C8 (amended). Constructing the window never raises, whatever \<open>tag_size\<close> is: the value
  is stored as given. A negative \<open>tag_size\<close> shows only later, as the \<open>ValueError\<close> of the
  first \<open>updateFrame\<close> that has to lay the canvas out (its scaled size computed, the
  resize returning).
\<close>

theorem construction_never_raises:
  "fst (ArucoWindow_init ts tb r) = None
   \<and> tag_size (self (snd (ArucoWindow_init ts tb r))) = ts
   \<and> (ts < 0 \<and> scaled_dim (self (snd (ArucoWindow_init ts tb r))) frame = Inr d
        \<and> resize frame d = Inr resized
        \<and> size_changed (self (snd (ArucoWindow_init ts tb r))) d
      \<longrightarrow> fst (updateFrame resize marker frame (snd (ArucoWindow_init ts tb r))) = Some ValueError)"
proof -
  let ?s0 = "snd (ArucoWindow_init ts tb r)"
  let ?s1 = "?s0\<lparr>self := (self ?s0)\<lparr>img_height := snd d, img_width := fst d\<rparr>\<rparr>"
  have "fst (updateFrame resize marker frame ?s0) = Some ValueError"
    if neg: "ts < 0" and d: "scaled_dim (self ?s0) frame = Inr d"
      and ok: "resize frame d = Inr resized" and ch: "size_changed (self ?s0) d"
  proof -
    have ts: "tag_size (self (snd (initFrame ?s1))) < 0"
      using neg by (simp add: ArucoWindow_init_def)
    have "fst (and_then (initFrame ?s1) (addCornerTags marker)) = Some ValueError"
      using initFrame_error [of ?s1] addCornerTags_negative [OF ts, of marker]
      by (auto simp: and_then_def)
    then show ?thesis
      unfolding updateFrame_Inr [where resize = resize and frame = frame and s = ?s0, OF d ok]
      using ch by (simp add: and_then_def)
  qed
  then show ?thesis by (simp add: ArucoWindow_init_def)
qed

text \<open>
  C8 as stated fails: the constructor returns for \<open>tag_size = 0\<close> and for \<open>tag_size = -5\<close>.
\<close>

theorem construction_accepts_bad_tag_size:
  "fst (ArucoWindow_init 0 10 (PyInt 1)) = None
   \<and> tag_size (self (snd (ArucoWindow_init 0 10 (PyInt 1)))) = 0
   \<and> fst (ArucoWindow_init (- 5) 10 (PyInt 1)) = None"
  by (simp add: ArucoWindow_init_def)

text \<open>
  With \<open>tag_size = -5\<close> the constructor returns and the first frame raises \<open>ValueError\<close>.
\<close>

theorem construction_never_raises_witness:
  "fst (ArucoWindow_init (- 5) 10 (PyInt 1)) = None
   \<and> fst (updateFrame sample_resize sample_marker (sample_frame 480 640)
            (snd (ArucoWindow_init (- 5) 10 (PyInt 1)))) = Some ValueError"
  using construction_never_raises [where ts = "- 5" and tb = 10 and r = "PyInt 1"
     and resize = sample_resize and d = "(640, 480)"
     and frame = "sample_frame 480 640" and marker = sample_marker
     and resized = "projr (sample_resize (sample_frame 480 640) (640, 480))"]
  by (simp add: sample_resize_def sample_frame_def size_changed_def)

subsection \<open>The precondition of updateCursor\<close>

text \<open>
  C9 (amended). \<open>updateCursor\<close> raises \<open>AttributeError\<close> on the constructed object, also
  after any number of earlier \<open>updateCursor\<close> calls. In general it returns exactly when
  \<open>output_img\<close> refers to a canvas and the overlay is drawn on the copy of it: every
  \<open>cv2.circle\<close> call returns and the image has rows and columns. A completed \<open>updateFrame\<close>
  leaves a canvas allocated.
\<close>

theorem updateCursor_needs_canvas:
  "fst (updateCursor circle x y corners (updateCursors circle calls (snd (ArucoWindow_init ts tb r))))
     = Some AttributeError
   \<and> (fst (updateCursor circle x y corners s) = None
        \<longleftrightarrow> (case canvas_of s of None \<Rightarrow> False | Some a \<Rightarrow> overlay_drawn circle x y corners a))
   \<and> (fst (updateFrame resize marker frame s) = None
        \<longrightarrow> canvas_of (snd (updateFrame resize marker frame s)) \<noteq> None)"
proof (intro conjI impI)
  show "fst (updateCursor circle x y corners (updateCursors circle calls (snd (ArucoWindow_init ts tb r))))
     = Some AttributeError"
    by (simp add: updateCursor_unallocated updateCursors_output_img)
  show "fst (updateCursor circle x y corners s) = None
        \<longleftrightarrow> (case canvas_of s of None \<Rightarrow> False | Some a \<Rightarrow> overlay_drawn circle x y corners a)"
    by (rule updateCursor_returns_iff)
  assume "fst (updateFrame resize marker frame s) = None"
  from updateFrame_returns_canvas [OF this]
  show "canvas_of (snd (updateFrame resize marker frame s)) \<noteq> None"
    by (simp add: canvas_of_def)
qed

text \<open>
  C9 as stated fails: a completed \<open>updateFrame\<close> is not necessary. An \<open>updateFrame\<close> that
  raises in \<open>addCornerTags\<close> (a frame of 50 rows is too low for tags of 100) has allocated
  the canvas already, and so has a direct call of \<open>initFrame\<close>; \<open>updateCursor\<close> returns
  after either.
\<close>

theorem updateCursor_without_completed_updateFrame:
  "fst (updateFrame sample_resize sample_marker (sample_frame 50 50)
         (snd (ArucoWindow_init 100 10 (PyInt 1))))
     = Some ValueError
   \<and> fst (updateCursor sample_circle 5 5 []
       (snd (updateFrame sample_resize sample_marker (sample_frame 50 50)
              (snd (ArucoWindow_init 100 10 (PyInt 1)))))) = None
   \<and> fst (updateCursor sample_circle 5 5 []
            (snd (initFrame (snd (ArucoWindow_init 100 10 (PyInt 1)))))) = None"
  by (simp add: eval_defs)

text \<open>
  On the constructed object \<open>updateCursor\<close> raises. A frame of 640 by 480 completes and
  leaves a canvas; \<open>updateCursor\<close> then returns for the position (5, 5), and does not for
  a coordinate of \<open>2^31\<close>, where \<open>cv2.circle\<close> raises.
\<close>

theorem updateCursor_needs_canvas_witness:
  "fst (updateCursor sample_circle 5 5 [(1, 2)] (snd (ArucoWindow_init 100 10 (PyInt 1))))
     = Some AttributeError
   \<and> fst (updateFrame sample_resize sample_marker (sample_frame 480 640)
            (snd (ArucoWindow_init 100 10 (PyInt 1)))) = None
   \<and> canvas_of (snd (updateFrame sample_resize sample_marker (sample_frame 480 640)
            (snd (ArucoWindow_init 100 10 (PyInt 1))))) \<noteq> None
   \<and> fst (updateCursor sample_circle 5 5 [(1, 2)]
            (snd (updateFrame sample_resize sample_marker (sample_frame 480 640)
                   (snd (ArucoWindow_init 100 10 (PyInt 1)))))) = None
   \<and> fst (updateCursor sample_circle (2 ^ 31) 5 [(1, 2)]
            (snd (updateFrame sample_resize sample_marker (sample_frame 480 640)
                   (snd (ArucoWindow_init 100 10 (PyInt 1)))))) \<noteq> None"
proof -
  let ?s0 = "snd (ArucoWindow_init 100 10 (PyInt 1))"
  let ?f = "sample_frame 480 640"
  let ?s' = "snd (updateFrame sample_resize sample_marker ?f ?s0)"
  obtain v where v: "sample_resize ?f (640, 480) = Inr v" "nrows v = 480" "ncols v = 640"
    "nchan v = 3"
    using sample_resize_ok [of "(640, 480)" ?f] by auto
  have f: "fits ((self ?s0)\<lparr>img_height := snd (640, 480), img_width := fst (640, 480)\<rparr>)"
    by (simp add: fits_def)
  from updateFrame_fits [where resize = sample_resize and frame = ?f and s = ?s0
      and marker = sample_marker and bm = sample_bitmaps and d = "(640, 480)" and resized = v,
      OF _ v(1) f]
    v(2-)
  obtain a0 where r: "fst (updateFrame sample_resize sample_marker ?f ?s0) = None"
    "canvas_of ?s' = Some (with_frame (self ?s') v a0)"
    "a0 = tagged_canvas sample_bitmaps (self ?s')"
    "img_height (self ?s') = 480" "img_width (self ?s') = 640"
    "tag_size (self ?s') = 100" "tag_border (self ?s') = 10"
    by (auto simp: sample_marker_draws size_changed_def)
  have sh: "nrows a0 = 500" "ncols a0 = 880"
    by (simp_all add: r(3-) canvas_rows_def canvas_cols_def)
  have yes: "overlay_drawn sample_circle 5 5 [(1, 2)] (with_frame (self ?s') v a0)"
    by (simp add: overlay_drawn_def draw_overlay_def sample_circle_def fits_int32_def py_int_def sh)
  have no: "\<not> overlay_drawn sample_circle (2 ^ 31) 5 [(1, 2)] (with_frame (self ?s') v a0)"
    by (simp add: overlay_drawn_def draw_overlay_def sample_circle_def fits_int32_def py_int_def)
  show ?thesis
    using r(1)
      updateCursor_needs_canvas [where circle = sample_circle and x = 5 and y = 5
        and corners = "[(1, 2)]" and calls = "[]" and ts = 100 and tb = 10 and r = "PyInt 1"
        and resize = sample_resize and marker = sample_marker and frame = ?f
        and s = ?s0]
      updateCursor_needs_canvas [where circle = sample_circle and x = 5 and y = 5
        and corners = "[(1, 2)]" and calls = "[]" and ts = 100 and tb = 10 and r = "PyInt 1"
        and resize = sample_resize and marker = sample_marker and frame = ?f
        and s = ?s']
      updateCursor_needs_canvas [where circle = sample_circle and x = "2 ^ 31" and y = 5
        and corners = "[(1, 2)]" and calls = "[]" and ts = 100 and tb = 10 and r = "PyInt 1"
        and resize = sample_resize and marker = sample_marker and frame = ?f
        and s = ?s']
      yes no
    by (simp add: r(2))
qed

subsection \<open>What updateCursor changes\<close>

text \<open>
  C10. \<open>updateCursor\<close> changes one field of the object, the cursor, which becomes
  \<open>(int(x), int(y))\<close>: \<open>tag_size\<close>, \<open>tag_border\<close>, \<open>image_rescale\<close>, \<open>img_width\<close>,
  \<open>img_height\<close> and the reference \<open>output_img\<close> are the same afterwards, and so are the
  pixels of the canvas that reference points to. This holds whether the call returns or
  raises.
\<close>

theorem updateCursor_frame_effect:
  assumes "refs_ok s"
  shows "self (snd (updateCursor circle x y corners s)) = (self s)\<lparr>cursor := (py_int x, py_int y)\<rparr>
       \<and> canvas_of (snd (updateCursor circle x y corners s)) = canvas_of s"
  using assms by (simp add: updateCursor_self updateCursor_canvas_of)

text \<open>
  On an allocated canvas, with the cursor at (5.7, -2.5): the cursor becomes (5, -2).
\<close>

theorem updateCursor_frame_effect_witness:
  "cursor (self (snd (updateCursor sample_circle 5.7 (- 2.5) [(1, 2)] (snd (initFrame s640))))) = (5, - 2)
   \<and> (self (snd (updateCursor sample_circle 5.7 (- 2.5) [(1, 2)] (snd (initFrame s640)))))\<lparr>cursor := (0, 0)\<rparr>
       = self (snd (initFrame s640))
   \<and> canvas_of (snd (updateCursor sample_circle 5.7 (- 2.5) [(1, 2)] (snd (initFrame s640))))
       = canvas_of (snd (initFrame s640))"
proof -
  have r: "refs_ok (snd (initFrame s640))"
    by (simp add: refs_ok_def s640_def eval_defs)
  have c: "cursor (self (snd (initFrame s640))) = (0, 0)"
    by (simp add: s640_def ArucoWindow_init_def)
  show ?thesis
    using updateCursor_frame_effect [OF r, of sample_circle "5.7" "- 2.5" "[(1, 2)]"] c
    by (simp add: py_int_def) 
qed

end
